theory Spec2Isabelle
  imports Main "HOL-Library.Sublist" "HOL-Library.Char_ord" "HOL-Library.List_Lexorder"
begin

section \<open>Python values used by the program\<close>

text \<open>
  Strings are byte lists (UTF-8). Comparison of two strings with \<open><\<close> and \<open>\<le>\<close> is the
  lexicographic order on the bytes, which is the order Python uses on code points.
  The two Chinese characters of the timeframe label are written as their UTF-8 bytes.
\<close>

definition nian :: string where
  "nian = [CHR 0xE5, CHR 0xB9, CHR 0xB4]"

definition yue :: string where
  "yue = [CHR 0xE6, CHR 0x9C, CHR 0x88]"

text \<open>\<open>str(n)\<close> for an integer, and the format \<open>{n:02d}\<close>.\<close>

definition digit_char :: "nat \<Rightarrow> char" where
  "digit_char n = ''0123456789'' ! n"

fun str_nat :: "nat \<Rightarrow> string" where
  "str_nat n = (if n < 10 then [digit_char n] else str_nat (n div 10) @ [digit_char (n mod 10)])"

declare str_nat.simps [simp del]

definition str_int :: "int \<Rightarrow> string" where
  "str_int i = (if i < 0 then CHR ''-'' # str_nat (nat (- i)) else str_nat (nat i))"

definition zfill :: "nat \<Rightarrow> string \<Rightarrow> string" where
  "zfill w s = replicate (w - length s) (CHR ''0'') @ s"

definition fmt_02d :: "int \<Rightarrow> string" where
  "fmt_02d i = (if i < 0 then CHR ''-'' # zfill 1 (str_nat (nat (- i))) else zfill 2 (str_nat (nat i)))"

text \<open>
  \<open>s.lower()\<close> on the ASCII letters; every other byte is kept. No character outside
  ASCII has a lower-case form that contains a letter of the pattern the program searches for.
\<close>

definition lower_char :: "char \<Rightarrow> char" where
  "lower_char c =
     (case map_of (zip ''ABCDEFGHIJKLMNOPQRSTUVWXYZ'' ''abcdefghijklmnopqrstuvwxyz'') c of
        Some l \<Rightarrow> l
      | None \<Rightarrow> c)"

definition lower :: "string \<Rightarrow> string" where
  "lower s = map lower_char s"

text \<open>\<open>sub in s\<close> for two strings.\<close>

fun contains :: "string \<Rightarrow> string \<Rightarrow> bool" where
  "contains sub [] = (sub = [])"
| "contains sub (c # cs) = (prefix sub (c # cs) \<or> contains sub cs)"

text \<open>\<open>sep.join(xs)\<close>.\<close>

fun join :: "string \<Rightarrow> string list \<Rightarrow> string" where
  "join sep [] = []"
| "join sep [x] = x"
| "join sep (x # y # ys) = x @ sep @ join sep (y # ys)"

text \<open>\<open>str(x)\<close> inside an f-string for an optional string: \<open>None\<close> prints as its name.\<close>

definition str_opt :: "string option \<Rightarrow> string" where
  "str_opt x = (case x of None \<Rightarrow> ''None'' | Some s \<Rightarrow> s)"

section \<open>Exceptions, log records and effects\<close>

text \<open>
  The exception classes of \<open>data_source_interface.py\<close> (\<open>LoginError\<close> and
  \<open>NoDataFoundError\<close> derive from \<open>DataSourceError\<close>), Python's \<open>ValueError\<close> with
  its subclasses, and any other class deriving from \<open>Exception\<close>, given by its class name.
  Each carries the text that \<open>str(e)\<close> prints.
\<close>

datatype exn =
    LoginError string
  | NoDataFoundError string
  | DataSourceError string
  | ValueError string
  | PyException string string

fun str_exn :: "exn \<Rightarrow> string" where
  "str_exn (LoginError m) = m"
| "str_exn (NoDataFoundError m) = m"
| "str_exn (DataSourceError m) = m"
| "str_exn (ValueError m) = m"
| "str_exn (PyException c m) = m"

text \<open>\<open>type(e).__name__\<close>.\<close>

fun class_name :: "exn \<Rightarrow> string" where
  "class_name (LoginError m) = ''LoginError''"
| "class_name (NoDataFoundError m) = ''NoDataFoundError''"
| "class_name (DataSourceError m) = ''DataSourceError''"
| "class_name (ValueError m) = ''ValueError''"
| "class_name (PyException c m) = c"

text \<open>\<open>isinstance(e, (LoginError, NoDataFoundError, DataSourceError, ValueError))\<close>.\<close>

fun known_error :: "exn \<Rightarrow> bool" where
  "known_error (PyException c m) = False"
| "known_error e = True"

datatype level = DEBUG | INFO | WARNING | ERROR

text \<open>
  A call of a provider function: its name, its positional arguments and its keyword
  arguments.
\<close>

datatype pyarg = PyStr string | PyInt int | PyNone

datatype bs_call = Bs_call string "pyarg list" "(string \<times> pyarg) list"

text \<open>
  What a run leaves behind, in order: the redirection of the standard output and its
  restoration, the calls of the provider, and the records written to the loggers of
  \<open>utils.py\<close> and \<open>date_utils.py\<close>. The records written by
  \<open>baostock_data_source.py\<close> have no effect on a result and are left out.
\<close>

datatype event =
    Stdout_to_devnull
  | Stdout_restored
  | Called_login
  | Called_logout
  | Called_query bs_call
  | Log level string

text \<open>
  A computation yields an exception or a value, and the events it caused. The operators
  below are sequencing, \<open>try ... except Exception as e\<close> and \<open>try ... finally\<close>.
\<close>

type_synonym 'a io = "(exn + 'a) \<times> event list"

definition ret :: "'a \<Rightarrow> 'a io" where
  "ret x = (Inr x, [])"

definition raise :: "exn \<Rightarrow> 'a io" where
  "raise e = (Inl e, [])"

definition emit :: "event \<Rightarrow> unit io" where
  "emit ev = (Inr (), [ev])"

definition lift :: "exn + 'a \<Rightarrow> 'a io" where
  "lift r = (r, [])"

definition andthen :: "'a io \<Rightarrow> ('a \<Rightarrow> 'b io) \<Rightarrow> 'b io" where
  "andthen m f =
     (case m of
        (Inl e, t) \<Rightarrow> (Inl e, t)
      | (Inr x, t) \<Rightarrow> (case f x of (r, t') \<Rightarrow> (r, t @ t')))"

definition try_except :: "'a io \<Rightarrow> (exn \<Rightarrow> 'a io) \<Rightarrow> 'a io" where
  "try_except m handler =
     (case m of
        (Inl e, t) \<Rightarrow> (case handler e of (r, t') \<Rightarrow> (r, t @ t'))
      | (Inr x, t) \<Rightarrow> (Inr x, t))"

definition try_finally :: "'a io \<Rightarrow> unit io \<Rightarrow> 'a io" where
  "try_finally m cleanup =
     (case m of (r, t) \<Rightarrow>
        (case cleanup of
           (Inl e, t') \<Rightarrow> (Inl e, t @ t')
         | (Inr u, t') \<Rightarrow> (r, t @ t')))"

definition bind_exn :: "exn + 'a \<Rightarrow> ('a \<Rightarrow> exn + 'b) \<Rightarrow> exn + 'b" where
  "bind_exn m f = (case m of Inl e \<Rightarrow> Inl e | Inr x \<Rightarrow> f x)"

section \<open>Dates\<close>

text \<open>
  The date part of a \<open>datetime\<close>; the program never reads the time of day. The
  constructor raises \<open>ValueError\<close> outside the years 1 to 9999, the months 1 to 12 and
  the days of the month.
\<close>

record datetime =
  year :: int
  month :: int
  day :: int

definition is_leap :: "int \<Rightarrow> bool" where
  "is_leap y = (y mod 4 = 0 \<and> (y mod 100 \<noteq> 0 \<or> y mod 400 = 0))"

definition days_in_month :: "int \<Rightarrow> int \<Rightarrow> int" where
  "days_in_month y m =
     (if m = 2 then (if is_leap y then 29 else 28)
      else if m = 4 \<or> m = 6 \<or> m = 9 \<or> m = 11 then 30 else 31)"

definition valid_date :: "datetime \<Rightarrow> bool" where
  "valid_date d =
     (1 \<le> year d \<and> year d \<le> 9999 \<and> 1 \<le> month d \<and> month d \<le> 12 \<and>
      1 \<le> day d \<and> day d \<le> days_in_month (year d) (month d))"

definition datetime_new :: "int \<Rightarrow> int \<Rightarrow> int \<Rightarrow> exn + datetime" where
  "datetime_new y m d =
     (if \<not> (1 \<le> y \<and> y \<le> 9999) then Inl (ValueError (''year '' @ str_int y @ '' is out of range''))
      else if \<not> (1 \<le> m \<and> m \<le> 12) then Inl (ValueError ''month must be in 1..12'')
      else if \<not> (1 \<le> d \<and> d \<le> days_in_month y m) then Inl (ValueError ''day is out of range for month'')
      else Inr \<lparr>year = y, month = m, day = d\<rparr>)"

section \<open>The analysis timeframe of \<open>date_utils.py\<close>\<close>

text \<open>The nested helper \<open>get_month_end_day\<close>, which is \<open>calendar.monthrange(year, month)[1]\<close>.\<close>

definition get_month_end_day :: "int \<Rightarrow> int \<Rightarrow> int" where
  "get_month_end_day y m = days_in_month y m"

text \<open>
  The tool reads the clock once (\<open>now\<close>) and takes the period. The first component of
  the pair computed in the branches is \<open>start_date\<close>, the second \<open>middle_date\<close>.
\<close>

definition same :: "exn + datetime \<Rightarrow> exn + datetime \<times> datetime" where
  "same m = bind_exn m (\<lambda>start_date. Inr (start_date, start_date))"

definition get_market_analysis_timeframe :: "string \<Rightarrow> datetime \<Rightarrow> string io" where
  "get_market_analysis_timeframe period now =
     andthen (emit (Log INFO (''Tool 'get_market_analysis_timeframe' called with period='' @ period))) (\<lambda>_.
     let end_date = now in
     andthen (lift
       (if period = ''recent'' then
          (if day now < 15 then
             (if month now = 1 then
                bind_exn (datetime_new (year now - 1) 11 1) (\<lambda>start_date.
                bind_exn (datetime_new (year now - 1) 12 1) (\<lambda>middle_date.
                Inr (start_date, middle_date)))
              else if month now = 2 then
                same (datetime_new (year now) 1 1)
              else
                bind_exn (datetime_new (year now) (month now - 2) 1) (\<lambda>start_date.
                bind_exn (datetime_new (year now) (month now - 1) 1) (\<lambda>middle_date.
                Inr (start_date, middle_date))))
           else
             (if month now = 1 then same (datetime_new (year now - 1) 12 1)
              else same (datetime_new (year now) (month now - 1) 1)))
        else if period = ''quarter'' then
          same (if month now \<le> 3 then datetime_new (year now - 1) (month now + 9) 1
                else datetime_new (year now) (month now - 3) 1)
        else if period = ''half_year'' then
          bind_exn (if month now \<le> 6 then datetime_new (year now - 1) (month now + 6) 1
                    else datetime_new (year now) (month now - 6) 1) (\<lambda>start_date.
          bind_exn (if month start_date \<le> 9 then datetime_new (year start_date) (month start_date + 3) 1
                    else datetime_new (year start_date + 1) (month start_date - 9) 1) (\<lambda>middle_date.
          Inr (start_date, middle_date)))
        else if period = ''year'' then
          bind_exn (datetime_new (year now - 1) (month now) 1) (\<lambda>start_date.
          bind_exn (if month start_date \<le> 6 then datetime_new (year start_date) (month start_date + 6) 1
                    else datetime_new (year start_date + 1) (month start_date - 6) 1) (\<lambda>middle_date.
          Inr (start_date, middle_date)))
        else
          same (if month now = 1 then datetime_new (year now - 1) 12 1
                else datetime_new (year now) (month now - 1) 1)))
       (\<lambda>(start_date, middle_date).
     let end_day = min (get_month_end_day (year end_date) (month end_date)) (day end_date);
         end_iso_date = str_int (year end_date) @ ''-'' @ fmt_02d (month end_date) @ ''-'' @ fmt_02d end_day;
         start_iso_date = str_int (year start_date) @ ''-'' @ fmt_02d (month start_date) @ ''-01'';
         date_range =
           (if year start_date \<noteq> year end_date then
              str_int (year start_date) @ nian @ str_int (month start_date) @ yue @ ''-'' @
              str_int (year end_date) @ nian @ str_int (month end_date) @ yue
            else if month middle_date \<noteq> month start_date \<and> month middle_date \<noteq> month end_date then
              str_int (year start_date) @ nian @ str_int (month start_date) @ yue @ ''-'' @
              str_int (month middle_date) @ yue @ ''-'' @ str_int (month end_date) @ yue
            else if month start_date \<noteq> month end_date then
              str_int (year start_date) @ nian @ str_int (month start_date) @ yue @ ''-'' @
              str_int (month end_date) @ yue
            else
              str_int (year start_date) @ nian @ str_int (month start_date) @ yue);
         result = date_range @ '' (ISO: '' @ start_iso_date @ '' to '' @ end_iso_date @ '')''
     in andthen (emit (Log INFO (''Generated market analysis timeframe: '' @ result))) (\<lambda>_.
        ret result)))"

section \<open>The provider\<close>

text \<open>
  \<open>bs.login()\<close> and every query function return an object with the fields
  \<open>error_code\<close> and \<open>error_msg\<close>. The result of a query has the column names \<open>rs.fields\<close>
  and a cursor: each \<open>rs.next()\<close> followed by \<open>rs.get_row_data()\<close> yields one more row,
  or \<open>rs.next()\<close> is false, or one of the two calls raises. A cursor is finite.
\<close>

datatype cursor = Exhausted | Row "string list" cursor | Fault exn

record status =
  error_code :: string
  error_msg :: string

record result_data = status +
  rs_fields :: "string list"
  cursor :: cursor

text \<open>
  The provider library as the program meets it in one call of the data source: what
  \<open>bs.login()\<close> returns or raises, what each query returns or raises, and whether
  \<open>bs.logout()\<close> raises (its return value is never read).
\<close>

record provider =
  login :: "exn + status"
  query :: "bs_call \<Rightarrow> exn + result_data"
  logout :: "exn option"

definition bs_login :: "provider \<Rightarrow> status io" where
  "bs_login bs = (login bs, [Called_login])"

definition bs_query :: "provider \<Rightarrow> bs_call \<Rightarrow> result_data io" where
  "bs_query bs c = (query bs c, [Called_query c])"

definition bs_logout :: "provider \<Rightarrow> unit io" where
  "bs_logout bs = ((case logout bs of None \<Rightarrow> Inr () | Some e \<Rightarrow> Inl e), [Called_logout])"

definition opt_arg :: "string option \<Rightarrow> pyarg" where
  "opt_arg x = (case x of None \<Rightarrow> PyNone | Some s \<Rightarrow> PyStr s)"

text \<open>The loop \<open>while rs.next(): data_list.append(rs.get_row_data())\<close>.\<close>

fun drain :: "cursor \<Rightarrow> string list list \<Rightarrow> exn + string list list" where
  "drain Exhausted data_list = Inr data_list"
| "drain (Row r c) data_list = drain c (data_list @ [r])"
| "drain (Fault e) data_list = Inl e"

section \<open>The session context of \<open>utils.py\<close>\<close>

text \<open>
  The context manager, applied to the body of the \<open>with\<close> statement. The duplication of
  the file descriptors around the two provider calls is taken as never failing.
\<close>

definition baostock_login_context :: "provider \<Rightarrow> 'a io \<Rightarrow> 'a io" where
  "baostock_login_context bs body =
     andthen (emit Stdout_to_devnull) (\<lambda>_.
     andthen (emit (Log DEBUG ''Attempting Baostock login...'')) (\<lambda>_.
     andthen (bs_login bs) (\<lambda>lg.
     andthen (emit (Log DEBUG (''Login result: code='' @ error_code lg @ '', msg='' @ error_msg lg))) (\<lambda>_.
     andthen (emit Stdout_restored) (\<lambda>_.
     if error_code lg \<noteq> ''0'' then
       andthen (emit (Log ERROR (''Baostock login failed: '' @ error_msg lg))) (\<lambda>_.
       raise (LoginError (''Baostock login failed: '' @ error_msg lg)))
     else
       andthen (emit (Log INFO ''Baostock login successful.'')) (\<lambda>_.
       try_finally body
         (andthen (emit Stdout_to_devnull) (\<lambda>_.
          andthen (emit (Log DEBUG ''Attempting Baostock logout...'')) (\<lambda>_.
          andthen (bs_logout bs) (\<lambda>_.
          andthen (emit (Log DEBUG ''Logout completed.'')) (\<lambda>_.
          andthen (emit Stdout_restored) (\<lambda>_.
          emit (Log INFO ''Baostock logout successful.'')))))))))))))"

section \<open>Tables\<close>

text \<open>
  A \<open>pandas.DataFrame\<close> built from a list of rows of strings: the column labels and the
  rows. The constructor pads a short row with \<open>None\<close> up to the widest row and raises
  \<open>ValueError\<close> when the number of labels is not that width.
\<close>

record DataFrame =
  columns :: "string list"
  rows :: "string option list list"

definition pd_DataFrame :: "string list list \<Rightarrow> string list \<Rightarrow> exn + DataFrame" where
  "pd_DataFrame data_list cols =
     (if data_list = [] then Inr \<lparr>columns = cols, rows = []\<rparr>
      else
        let width = foldr (\<lambda>r w. max (length r) w) data_list 0 in
        if length cols \<noteq> width then
          Inl (ValueError (str_nat (length cols) @ '' columns passed, passed data had '' @
                           str_nat width @ '' columns''))
        else
          Inr \<lparr>columns = cols,
               rows = map (\<lambda>r. map Some r @ replicate (width - length r) None) data_list\<rparr>)"

text \<open>\<open>len(df)\<close> and \<open>df.empty\<close>.\<close>

definition len_df :: "DataFrame \<Rightarrow> nat" where
  "len_df df = length (rows df)"

definition empty_df :: "DataFrame \<Rightarrow> bool" where
  "empty_df df = (columns df = [] \<or> rows df = [])"

section \<open>The data source of \<open>baostock_data_source.py\<close>\<close>

definition DEFAULT_K_FIELDS :: "string list" where
  "DEFAULT_K_FIELDS =
     [''date'', ''code'', ''open'', ''high'', ''low'', ''close'', ''preclose'',
      ''volume'', ''amount'', ''adjustflag'', ''turn'', ''tradestatus'',
      ''pctChg'', ''peTTM'', ''pbMRQ'', ''psTTM'', ''pcfNcfTTM'', ''isST'']"

text \<open>
  Each fetch is a \<open>try\<close> statement with two \<open>except\<close> clauses. The definition named
  \<open>..._try\<close> is the body of the \<open>try\<close>; the definition without the suffix is the whole
  function. A provider function passed as an argument is given by its name.
\<close>

definition fetch_financial_data_try ::
  "provider \<Rightarrow> string \<Rightarrow> string \<Rightarrow> string \<Rightarrow> string \<Rightarrow> int \<Rightarrow> DataFrame io" where
  "fetch_financial_data_try bs bs_query_func data_type_name code year' quarter =
     baostock_login_context bs
       (andthen (bs_query bs (Bs_call bs_query_func []
                   [(''code'', PyStr code), (''year'', PyStr year'), (''quarter'', PyInt quarter)])) (\<lambda>rs.
        if error_code rs \<noteq> ''0'' then
          (if contains ''no record found'' (lower (error_msg rs)) \<or> error_code rs = ''10002'' then
             raise (NoDataFoundError (''No '' @ data_type_name @ '' data found for '' @ code @ '', '' @
                      year' @ ''Q'' @ str_int quarter @ ''. Baostock msg: '' @ error_msg rs))
           else
             raise (DataSourceError (''Baostock API error fetching '' @ data_type_name @ '' data: '' @
                      error_msg rs @ '' (code: '' @ error_code rs @ '')'')))
        else
          andthen (lift (drain (cursor rs) [])) (\<lambda>data_list.
          if data_list = [] then
            raise (NoDataFoundError (''No '' @ data_type_name @ '' data found for '' @ code @ '', '' @
                     year' @ ''Q'' @ str_int quarter @ '' (empty result set).''))
          else
            andthen (lift (pd_DataFrame data_list (rs_fields rs))) (\<lambda>result_df.
            ret result_df))))"

definition fetch_financial_data ::
  "provider \<Rightarrow> string \<Rightarrow> string \<Rightarrow> string \<Rightarrow> string \<Rightarrow> int \<Rightarrow> DataFrame io" where
  "fetch_financial_data bs bs_query_func data_type_name code year' quarter =
     try_except (fetch_financial_data_try bs bs_query_func data_type_name code year' quarter) (\<lambda>e.
       if known_error e then raise e
       else raise (DataSourceError (''Unexpected error fetching '' @ data_type_name @
                     '' data for '' @ code @ '': '' @ str_exn e)))"

definition fetch_index_constituent_data_try ::
  "provider \<Rightarrow> string \<Rightarrow> string \<Rightarrow> string option \<Rightarrow> DataFrame io" where
  "fetch_index_constituent_data_try bs bs_query_func index_name date =
     baostock_login_context bs
       (andthen (bs_query bs (Bs_call bs_query_func [] [(''date'', opt_arg date)])) (\<lambda>rs.
        if error_code rs \<noteq> ''0'' then
          (if contains ''no record found'' (lower (error_msg rs)) \<or> error_code rs = ''10002'' then
             raise (NoDataFoundError (''No '' @ index_name @ '' constituent data found for date '' @
                      str_opt date @ ''. Baostock msg: '' @ error_msg rs))
           else
             raise (DataSourceError (''Baostock API error fetching '' @ index_name @
                      '' constituents: '' @ error_msg rs @ '' (code: '' @ error_code rs @ '')'')))
        else
          andthen (lift (drain (cursor rs) [])) (\<lambda>data_list.
          if data_list = [] then
            raise (NoDataFoundError (''No '' @ index_name @ '' constituent data found for date '' @
                     str_opt date @ '' (empty result set).''))
          else
            andthen (lift (pd_DataFrame data_list (rs_fields rs))) (\<lambda>result_df.
            ret result_df))))"

definition fetch_index_constituent_data ::
  "provider \<Rightarrow> string \<Rightarrow> string \<Rightarrow> string option \<Rightarrow> DataFrame io" where
  "fetch_index_constituent_data bs bs_query_func index_name date =
     try_except (fetch_index_constituent_data_try bs bs_query_func index_name date) (\<lambda>e.
       if known_error e then raise e
       else raise (DataSourceError (''Unexpected error fetching '' @ index_name @
                     '' constituents for date '' @ str_opt date @ '': '' @ str_exn e)))"

definition fetch_macro_data_try ::
  "provider \<Rightarrow> string \<Rightarrow> string \<Rightarrow> string option \<Rightarrow> string option \<Rightarrow>
   (string \<times> pyarg) list \<Rightarrow> DataFrame io" where
  "fetch_macro_data_try bs bs_query_func data_type_name start_date end_date kwargs =
     baostock_login_context bs
       (andthen (bs_query bs (Bs_call bs_query_func []
                   ([(''start_date'', opt_arg start_date), (''end_date'', opt_arg end_date)] @ kwargs))) (\<lambda>rs.
        if error_code rs \<noteq> ''0'' then
          (if contains ''no record found'' (lower (error_msg rs)) \<or> error_code rs = ''10002'' then
             raise (NoDataFoundError (''No '' @ data_type_name @
                      '' data found for the specified criteria. Baostock msg: '' @ error_msg rs))
           else
             raise (DataSourceError (''Baostock API error fetching '' @ data_type_name @ '' data: '' @
                      error_msg rs @ '' (code: '' @ error_code rs @ '')'')))
        else
          andthen (lift (drain (cursor rs) [])) (\<lambda>data_list.
          if data_list = [] then
            raise (NoDataFoundError (''No '' @ data_type_name @
                     '' data found for the specified criteria (empty result set).''))
          else
            andthen (lift (pd_DataFrame data_list (rs_fields rs))) (\<lambda>result_df.
            ret result_df))))"

definition fetch_macro_data ::
  "provider \<Rightarrow> string \<Rightarrow> string \<Rightarrow> string option \<Rightarrow> string option \<Rightarrow>
   (string \<times> pyarg) list \<Rightarrow> DataFrame io" where
  "fetch_macro_data bs bs_query_func data_type_name start_date end_date kwargs =
     try_except (fetch_macro_data_try bs bs_query_func data_type_name start_date end_date kwargs) (\<lambda>e.
       if known_error e then raise e
       else raise (DataSourceError (''Unexpected error fetching '' @ data_type_name @
                     '' data: '' @ str_exn e)))"

text \<open>
  The method \<open>_format_fields\<close>. The items of the list are strings by their type, so the
  check that raises \<open>ValueError\<close> for an item that is not a string always passes.
\<close>

definition format_fields :: "string list option \<Rightarrow> string list \<Rightarrow> exn + string" where
  "format_fields fields' default_fields =
     (case fields' of
        None \<Rightarrow> Inr (join '','' default_fields)
      | Some fs \<Rightarrow> (if fs = [] then Inr (join '','' default_fields) else Inr (join '','' fs)))"

text \<open>
  \<open>df[cols]\<close> for a list of labels that all occur in the frame: the columns with these
  labels, in the order of the list.
\<close>

definition positions :: "DataFrame \<Rightarrow> string \<Rightarrow> nat list" where
  "positions df c = filter (\<lambda>i. columns df ! i = c) [0..<length (columns df)]"

definition select_columns :: "DataFrame \<Rightarrow> string list \<Rightarrow> DataFrame" where
  "select_columns df cols =
     (let idx = concat (map (positions df) cols)
      in \<lparr>columns = map (\<lambda>i. columns df ! i) idx,
          rows = map (\<lambda>r. map (\<lambda>i. r ! i) idx) (rows df)\<rparr>)"

text \<open>
  How an f-string prints a list of strings, for strings without quotes, backslashes and
  control characters.
\<close>

definition repr_list :: "string list \<Rightarrow> string" where
  "repr_list xs = ''['' @ join '', '' (map (\<lambda>x. [CHR 0x27] @ x @ [CHR 0x27]) xs) @ '']''"

definition get_historical_k_data_try ::
  "provider \<Rightarrow> string \<Rightarrow> string \<Rightarrow> string \<Rightarrow> string \<Rightarrow> string \<Rightarrow> string list option \<Rightarrow> DataFrame io" where
  "get_historical_k_data_try bs code start_date end_date frequency adjust_flag fields' =
     andthen (lift (format_fields fields' DEFAULT_K_FIELDS)) (\<lambda>formatted_fields.
     baostock_login_context bs
       (andthen (bs_query bs (Bs_call ''query_history_k_data_plus'' [PyStr code, PyStr formatted_fields]
                   [(''start_date'', PyStr start_date), (''end_date'', PyStr end_date),
                    (''frequency'', PyStr frequency), (''adjustflag'', PyStr adjust_flag)])) (\<lambda>rs.
        if error_code rs \<noteq> ''0'' then
          (if contains ''no record found'' (lower (error_msg rs)) \<or> error_code rs = ''10002'' then
             raise (NoDataFoundError (''No historical data found for '' @ code @
                      '' in the specified range. Baostock msg: '' @ error_msg rs))
           else
             raise (DataSourceError (''Baostock API error fetching K-data: '' @ error_msg rs @
                      '' (code: '' @ error_code rs @ '')'')))
        else
          andthen (lift (drain (cursor rs) [])) (\<lambda>data_list.
          if data_list = [] then
            raise (NoDataFoundError (''No historical data found for '' @ code @
                     '' in the specified range (empty result set).''))
          else
            andthen (lift (pd_DataFrame data_list (rs_fields rs))) (\<lambda>result_df.
            ret result_df)))))"

definition get_historical_k_data ::
  "provider \<Rightarrow> string \<Rightarrow> string \<Rightarrow> string \<Rightarrow> string \<Rightarrow> string \<Rightarrow> string list option \<Rightarrow> DataFrame io" where
  "get_historical_k_data bs code start_date end_date frequency adjust_flag fields' =
     try_except (get_historical_k_data_try bs code start_date end_date frequency adjust_flag fields') (\<lambda>e.
       if known_error e then raise e
       else raise (DataSourceError (''Unexpected error fetching K-data for '' @ code @ '': '' @ str_exn e)))"

definition get_stock_basic_info_try ::
  "provider \<Rightarrow> string \<Rightarrow> string list option \<Rightarrow> DataFrame io" where
  "get_stock_basic_info_try bs code fields' =
     baostock_login_context bs
       (andthen (bs_query bs (Bs_call ''query_stock_basic'' [] [(''code'', PyStr code)])) (\<lambda>rs.
        if error_code rs \<noteq> ''0'' then
          (if contains ''no record found'' (lower (error_msg rs)) \<or> error_code rs = ''10002'' then
             raise (NoDataFoundError (''No basic info found for '' @ code @ ''. Baostock msg: '' @ error_msg rs))
           else
             raise (DataSourceError (''Baostock API error fetching basic info: '' @ error_msg rs @
                      '' (code: '' @ error_code rs @ '')'')))
        else
          andthen (lift (drain (cursor rs) [])) (\<lambda>data_list.
          if data_list = [] then
            raise (NoDataFoundError (''No basic info found for '' @ code @ '' (empty result set).''))
          else
            andthen (lift (pd_DataFrame data_list (rs_fields rs))) (\<lambda>result_df.
            case fields' of
              None \<Rightarrow> ret result_df
            | Some fs \<Rightarrow>
                if fs = [] then ret result_df
                else
                  let available_cols = filter (\<lambda>col. col \<in> set (columns result_df)) fs in
                  if available_cols = [] then
                    raise (ValueError (''None of the requested fields '' @ repr_list fs @
                             '' are available in the basic info result.''))
                  else ret (select_columns result_df available_cols)))))"

definition get_stock_basic_info ::
  "provider \<Rightarrow> string \<Rightarrow> string list option \<Rightarrow> DataFrame io" where
  "get_stock_basic_info bs code fields' =
     try_except (get_stock_basic_info_try bs code fields') (\<lambda>e.
       if known_error e then raise e
       else raise (DataSourceError (''Unexpected error fetching basic info for '' @ code @ '': '' @ str_exn e)))"

definition get_dividend_data_try ::
  "provider \<Rightarrow> string \<Rightarrow> string \<Rightarrow> string \<Rightarrow> DataFrame io" where
  "get_dividend_data_try bs code year' year_type =
     baostock_login_context bs
       (andthen (bs_query bs (Bs_call ''query_dividend_data'' []
                   [(''code'', PyStr code), (''year'', PyStr year'), (''yearType'', PyStr year_type)])) (\<lambda>rs.
        if error_code rs \<noteq> ''0'' then
          (if contains ''no record found'' (lower (error_msg rs)) \<or> error_code rs = ''10002'' then
             raise (NoDataFoundError (''No dividend data found for '' @ code @ '' and year '' @ year' @
                      ''. Baostock msg: '' @ error_msg rs))
           else
             raise (DataSourceError (''Baostock API error fetching dividend data: '' @ error_msg rs @
                      '' (code: '' @ error_code rs @ '')'')))
        else
          andthen (lift (drain (cursor rs) [])) (\<lambda>data_list.
          if data_list = [] then
            raise (NoDataFoundError (''No dividend data found for '' @ code @ '', year '' @ year' @
                     '' (empty result set).''))
          else
            andthen (lift (pd_DataFrame data_list (rs_fields rs))) (\<lambda>result_df.
            ret result_df))))"

definition get_dividend_data ::
  "provider \<Rightarrow> string \<Rightarrow> string \<Rightarrow> string \<Rightarrow> DataFrame io" where
  "get_dividend_data bs code year' year_type =
     try_except (get_dividend_data_try bs code year' year_type) (\<lambda>e.
       if known_error e then raise e
       else raise (DataSourceError (''Unexpected error fetching dividend data for '' @ code @ '': '' @ str_exn e)))"

definition get_adjust_factor_data_try ::
  "provider \<Rightarrow> string \<Rightarrow> string \<Rightarrow> string \<Rightarrow> DataFrame io" where
  "get_adjust_factor_data_try bs code start_date end_date =
     baostock_login_context bs
       (andthen (bs_query bs (Bs_call ''query_adjust_factor'' []
                   [(''code'', PyStr code), (''start_date'', PyStr start_date),
                    (''end_date'', PyStr end_date)])) (\<lambda>rs.
        if error_code rs \<noteq> ''0'' then
          (if contains ''no record found'' (lower (error_msg rs)) \<or> error_code rs = ''10002'' then
             raise (NoDataFoundError (''No adjustment factor data found for '' @ code @
                      '' in the specified range. Baostock msg: '' @ error_msg rs))
           else
             raise (DataSourceError (''Baostock API error fetching adjust factor data: '' @ error_msg rs @
                      '' (code: '' @ error_code rs @ '')'')))
        else
          andthen (lift (drain (cursor rs) [])) (\<lambda>data_list.
          if data_list = [] then
            raise (NoDataFoundError (''No adjustment factor data found for '' @ code @
                     '' in the specified range (empty result set).''))
          else
            andthen (lift (pd_DataFrame data_list (rs_fields rs))) (\<lambda>result_df.
            ret result_df))))"

definition get_adjust_factor_data ::
  "provider \<Rightarrow> string \<Rightarrow> string \<Rightarrow> string \<Rightarrow> DataFrame io" where
  "get_adjust_factor_data bs code start_date end_date =
     try_except (get_adjust_factor_data_try bs code start_date end_date) (\<lambda>e.
       if known_error e then raise e
       else raise (DataSourceError (''Unexpected error fetching adjust factor data for '' @ code @ '': '' @ str_exn e)))"

definition get_performance_express_report_try ::
  "provider \<Rightarrow> string \<Rightarrow> string \<Rightarrow> string \<Rightarrow> DataFrame io" where
  "get_performance_express_report_try bs code start_date end_date =
     baostock_login_context bs
       (andthen (bs_query bs (Bs_call ''query_performance_express_report'' []
                   [(''code'', PyStr code), (''start_date'', PyStr start_date),
                    (''end_date'', PyStr end_date)])) (\<lambda>rs.
        if error_code rs \<noteq> ''0'' then
          (if contains ''no record found'' (lower (error_msg rs)) \<or> error_code rs = ''10002'' then
             raise (NoDataFoundError (''No performance express report found for '' @ code @ '' in range '' @
                      start_date @ ''-'' @ end_date @ ''. Baostock msg: '' @ error_msg rs))
           else
             raise (DataSourceError (''Baostock API error fetching performance express report: '' @ error_msg rs @
                      '' (code: '' @ error_code rs @ '')'')))
        else
          andthen (lift (drain (cursor rs) [])) (\<lambda>data_list.
          if data_list = [] then
            raise (NoDataFoundError (''No performance express report found for '' @ code @ '' in range '' @
                     start_date @ ''-'' @ end_date @ '' (empty result set).''))
          else
            andthen (lift (pd_DataFrame data_list (rs_fields rs))) (\<lambda>result_df.
            ret result_df))))"

definition get_performance_express_report ::
  "provider \<Rightarrow> string \<Rightarrow> string \<Rightarrow> string \<Rightarrow> DataFrame io" where
  "get_performance_express_report bs code start_date end_date =
     try_except (get_performance_express_report_try bs code start_date end_date) (\<lambda>e.
       if known_error e then raise e
       else raise (DataSourceError (''Unexpected error fetching performance express report for '' @ code @ '': '' @ str_exn e)))"

definition get_forecast_report_try ::
  "provider \<Rightarrow> string \<Rightarrow> string \<Rightarrow> string \<Rightarrow> DataFrame io" where
  "get_forecast_report_try bs code start_date end_date =
     baostock_login_context bs
       (andthen (bs_query bs (Bs_call ''query_forecast_report'' []
                   [(''code'', PyStr code), (''start_date'', PyStr start_date),
                    (''end_date'', PyStr end_date)])) (\<lambda>rs.
        if error_code rs \<noteq> ''0'' then
          (if contains ''no record found'' (lower (error_msg rs)) \<or> error_code rs = ''10002'' then
             raise (NoDataFoundError (''No performance forecast report found for '' @ code @ '' in range '' @
                      start_date @ ''-'' @ end_date @ ''. Baostock msg: '' @ error_msg rs))
           else
             raise (DataSourceError (''Baostock API error fetching performance forecast report: '' @ error_msg rs @
                      '' (code: '' @ error_code rs @ '')'')))
        else
          andthen (lift (drain (cursor rs) [])) (\<lambda>data_list.
          if data_list = [] then
            raise (NoDataFoundError (''No performance forecast report found for '' @ code @ '' in range '' @
                     start_date @ ''-'' @ end_date @ '' (empty result set).''))
          else
            andthen (lift (pd_DataFrame data_list (rs_fields rs))) (\<lambda>result_df.
            ret result_df))))"

definition get_forecast_report ::
  "provider \<Rightarrow> string \<Rightarrow> string \<Rightarrow> string \<Rightarrow> DataFrame io" where
  "get_forecast_report bs code start_date end_date =
     try_except (get_forecast_report_try bs code start_date end_date) (\<lambda>e.
       if known_error e then raise e
       else raise (DataSourceError (''Unexpected error fetching performance forecast report for '' @ code @ '': '' @ str_exn e)))"

definition get_stock_industry_try ::
  "provider \<Rightarrow> string option \<Rightarrow> string option \<Rightarrow> DataFrame io" where
  "get_stock_industry_try bs code date =
     baostock_login_context bs
       (andthen (bs_query bs (Bs_call ''query_stock_industry'' []
                   [(''code'', opt_arg code), (''date'', opt_arg date)])) (\<lambda>rs.
        if error_code rs \<noteq> ''0'' then
          (if contains ''no record found'' (lower (error_msg rs)) \<or> error_code rs = ''10002'' then
             raise (NoDataFoundError (''No industry data found for '' @ str_opt code @ '', '' @ str_opt date @
                      ''. Baostock msg: '' @ error_msg rs))
           else
             raise (DataSourceError (''Baostock API error fetching industry data: '' @ error_msg rs @
                      '' (code: '' @ error_code rs @ '')'')))
        else
          andthen (lift (drain (cursor rs) [])) (\<lambda>data_list.
          if data_list = [] then
            raise (NoDataFoundError (''No industry data found for '' @ str_opt code @ '', '' @ str_opt date @
                     '' (empty result set).''))
          else
            andthen (lift (pd_DataFrame data_list (rs_fields rs))) (\<lambda>result_df.
            ret result_df))))"

definition get_stock_industry ::
  "provider \<Rightarrow> string option \<Rightarrow> string option \<Rightarrow> DataFrame io" where
  "get_stock_industry bs code date =
     try_except (get_stock_industry_try bs code date) (\<lambda>e.
       if known_error e then raise e
       else raise (DataSourceError (''Unexpected error fetching industry data for '' @ str_opt code @ '', '' @
                     str_opt date @ '': '' @ str_exn e)))"

definition get_trade_dates_try ::
  "provider \<Rightarrow> string option \<Rightarrow> string option \<Rightarrow> DataFrame io" where
  "get_trade_dates_try bs start_date end_date =
     baostock_login_context bs
       (andthen (bs_query bs (Bs_call ''query_trade_dates'' []
                   [(''start_date'', opt_arg start_date), (''end_date'', opt_arg end_date)])) (\<lambda>rs.
        if error_code rs \<noteq> ''0'' then
          raise (DataSourceError (''Baostock API error fetching trade dates: '' @ error_msg rs @
                    '' (code: '' @ error_code rs @ '')''))
        else
          andthen (lift (drain (cursor rs) [])) (\<lambda>data_list.
          if data_list = [] then
            raise (NoDataFoundError (''No trade dates found for range '' @ str_opt start_date @ ''-'' @
                     str_opt end_date @ '' (empty result set).''))
          else
            andthen (lift (pd_DataFrame data_list (rs_fields rs))) (\<lambda>result_df.
            ret result_df))))"

definition get_trade_dates ::
  "provider \<Rightarrow> string option \<Rightarrow> string option \<Rightarrow> DataFrame io" where
  "get_trade_dates bs start_date end_date =
     try_except (get_trade_dates_try bs start_date end_date) (\<lambda>e.
       if known_error e then raise e
       else raise (DataSourceError (''Unexpected error fetching trade dates: '' @ str_exn e)))"

definition get_all_stock_try ::
  "provider \<Rightarrow> string option \<Rightarrow> DataFrame io" where
  "get_all_stock_try bs date =
     baostock_login_context bs
       (andthen (bs_query bs (Bs_call ''query_all_stock'' [] [(''day'', opt_arg date)])) (\<lambda>rs.
        if error_code rs \<noteq> ''0'' then
          (if contains ''no record found'' (lower (error_msg rs)) \<or> error_code rs = ''10002'' then
             raise (NoDataFoundError (''No stock data found for date '' @ str_opt date @
                      ''. Baostock msg: '' @ error_msg rs))
           else
             raise (DataSourceError (''Baostock API error fetching all stock list: '' @ error_msg rs @
                      '' (code: '' @ error_code rs @ '')'')))
        else
          andthen (lift (drain (cursor rs) [])) (\<lambda>data_list.
          if data_list = [] then
            raise (NoDataFoundError (''No stock list found for date '' @ str_opt date @ '' (empty result set).''))
          else
            andthen (lift (pd_DataFrame data_list (rs_fields rs))) (\<lambda>result_df.
            ret result_df))))"

definition get_all_stock ::
  "provider \<Rightarrow> string option \<Rightarrow> DataFrame io" where
  "get_all_stock bs date =
     try_except (get_all_stock_try bs date) (\<lambda>e.
       if known_error e then raise e
       else raise (DataSourceError (''Unexpected error fetching all stock list for date '' @ str_opt date @ '': '' @ str_exn e)))"

text \<open>
  The class \<open>BaostockDataSource\<close>: a call of one of its fetch methods with its arguments,
  and the method table. \<open>BaostockDataSource_try\<close> is the same table for the bodies of the
  \<open>try\<close> statements.
\<close>

datatype method_call =
    Get_historical_k_data string string string string string "string list option"
  | Get_stock_basic_info string "string list option"
  | Get_dividend_data string string string
  | Get_adjust_factor_data string string string
  | Get_profit_data string string int
  | Get_operation_data string string int
  | Get_growth_data string string int
  | Get_balance_data string string int
  | Get_cash_flow_data string string int
  | Get_dupont_data string string int
  | Get_performance_express_report string string string
  | Get_forecast_report string string string
  | Get_stock_industry "string option" "string option"
  | Get_sz50_stocks "string option"
  | Get_hs300_stocks "string option"
  | Get_zz500_stocks "string option"
  | Get_trade_dates "string option" "string option"
  | Get_all_stock "string option"
  | Get_deposit_rate_data "string option" "string option"
  | Get_loan_rate_data "string option" "string option"
  | Get_required_reserve_ratio_data "string option" "string option" string
  | Get_money_supply_data_month "string option" "string option"
  | Get_money_supply_data_year "string option" "string option"

fun BaostockDataSource :: "provider \<Rightarrow> method_call \<Rightarrow> DataFrame io" where
  "BaostockDataSource bs (Get_historical_k_data code start_date end_date frequency adjust_flag fs) =
     get_historical_k_data bs code start_date end_date frequency adjust_flag fs"
| "BaostockDataSource bs (Get_stock_basic_info code fs) =
     get_stock_basic_info bs code fs"
| "BaostockDataSource bs (Get_dividend_data code y year_type) =
     get_dividend_data bs code y year_type"
| "BaostockDataSource bs (Get_adjust_factor_data code start_date end_date) =
     get_adjust_factor_data bs code start_date end_date"
| "BaostockDataSource bs (Get_profit_data code y quarter) =
     fetch_financial_data bs ''query_profit_data'' ''Profitability'' code y quarter"
| "BaostockDataSource bs (Get_operation_data code y quarter) =
     fetch_financial_data bs ''query_operation_data'' ''Operation Capability'' code y quarter"
| "BaostockDataSource bs (Get_growth_data code y quarter) =
     fetch_financial_data bs ''query_growth_data'' ''Growth Capability'' code y quarter"
| "BaostockDataSource bs (Get_balance_data code y quarter) =
     fetch_financial_data bs ''query_balance_data'' ''Balance Sheet'' code y quarter"
| "BaostockDataSource bs (Get_cash_flow_data code y quarter) =
     fetch_financial_data bs ''query_cash_flow_data'' ''Cash Flow'' code y quarter"
| "BaostockDataSource bs (Get_dupont_data code y quarter) =
     fetch_financial_data bs ''query_dupont_data'' ''DuPont Analysis'' code y quarter"
| "BaostockDataSource bs (Get_performance_express_report code start_date end_date) =
     get_performance_express_report bs code start_date end_date"
| "BaostockDataSource bs (Get_forecast_report code start_date end_date) =
     get_forecast_report bs code start_date end_date"
| "BaostockDataSource bs (Get_stock_industry code date) =
     get_stock_industry bs code date"
| "BaostockDataSource bs (Get_sz50_stocks date) =
     fetch_index_constituent_data bs ''query_sz50_stocks'' ''SZSE 50'' date"
| "BaostockDataSource bs (Get_hs300_stocks date) =
     fetch_index_constituent_data bs ''query_hs300_stocks'' ''CSI 300'' date"
| "BaostockDataSource bs (Get_zz500_stocks date) =
     fetch_index_constituent_data bs ''query_zz500_stocks'' ''CSI 500'' date"
| "BaostockDataSource bs (Get_trade_dates start_date end_date) =
     get_trade_dates bs start_date end_date"
| "BaostockDataSource bs (Get_all_stock date) =
     get_all_stock bs date"
| "BaostockDataSource bs (Get_deposit_rate_data start_date end_date) =
     fetch_macro_data bs ''query_deposit_rate_data'' ''Deposit Rate'' start_date end_date []"
| "BaostockDataSource bs (Get_loan_rate_data start_date end_date) =
     fetch_macro_data bs ''query_loan_rate_data'' ''Loan Rate'' start_date end_date []"
| "BaostockDataSource bs (Get_required_reserve_ratio_data start_date end_date year_type) =
     fetch_macro_data bs ''query_required_reserve_ratio_data'' ''Required Reserve Ratio''
       start_date end_date [(''yearType'', PyStr year_type)]"
| "BaostockDataSource bs (Get_money_supply_data_month start_date end_date) =
     fetch_macro_data bs ''query_money_supply_data_month'' ''Monthly Money Supply''
       start_date end_date []"
| "BaostockDataSource bs (Get_money_supply_data_year start_date end_date) =
     fetch_macro_data bs ''query_money_supply_data_year'' ''Yearly Money Supply''
       start_date end_date []"

fun BaostockDataSource_try :: "provider \<Rightarrow> method_call \<Rightarrow> DataFrame io" where
  "BaostockDataSource_try bs (Get_historical_k_data code start_date end_date frequency adjust_flag fs) =
     get_historical_k_data_try bs code start_date end_date frequency adjust_flag fs"
| "BaostockDataSource_try bs (Get_stock_basic_info code fs) =
     get_stock_basic_info_try bs code fs"
| "BaostockDataSource_try bs (Get_dividend_data code y year_type) =
     get_dividend_data_try bs code y year_type"
| "BaostockDataSource_try bs (Get_adjust_factor_data code start_date end_date) =
     get_adjust_factor_data_try bs code start_date end_date"
| "BaostockDataSource_try bs (Get_profit_data code y quarter) =
     fetch_financial_data_try bs ''query_profit_data'' ''Profitability'' code y quarter"
| "BaostockDataSource_try bs (Get_operation_data code y quarter) =
     fetch_financial_data_try bs ''query_operation_data'' ''Operation Capability'' code y quarter"
| "BaostockDataSource_try bs (Get_growth_data code y quarter) =
     fetch_financial_data_try bs ''query_growth_data'' ''Growth Capability'' code y quarter"
| "BaostockDataSource_try bs (Get_balance_data code y quarter) =
     fetch_financial_data_try bs ''query_balance_data'' ''Balance Sheet'' code y quarter"
| "BaostockDataSource_try bs (Get_cash_flow_data code y quarter) =
     fetch_financial_data_try bs ''query_cash_flow_data'' ''Cash Flow'' code y quarter"
| "BaostockDataSource_try bs (Get_dupont_data code y quarter) =
     fetch_financial_data_try bs ''query_dupont_data'' ''DuPont Analysis'' code y quarter"
| "BaostockDataSource_try bs (Get_performance_express_report code start_date end_date) =
     get_performance_express_report_try bs code start_date end_date"
| "BaostockDataSource_try bs (Get_forecast_report code start_date end_date) =
     get_forecast_report_try bs code start_date end_date"
| "BaostockDataSource_try bs (Get_stock_industry code date) =
     get_stock_industry_try bs code date"
| "BaostockDataSource_try bs (Get_sz50_stocks date) =
     fetch_index_constituent_data_try bs ''query_sz50_stocks'' ''SZSE 50'' date"
| "BaostockDataSource_try bs (Get_hs300_stocks date) =
     fetch_index_constituent_data_try bs ''query_hs300_stocks'' ''CSI 300'' date"
| "BaostockDataSource_try bs (Get_zz500_stocks date) =
     fetch_index_constituent_data_try bs ''query_zz500_stocks'' ''CSI 500'' date"
| "BaostockDataSource_try bs (Get_trade_dates start_date end_date) =
     get_trade_dates_try bs start_date end_date"
| "BaostockDataSource_try bs (Get_all_stock date) =
     get_all_stock_try bs date"
| "BaostockDataSource_try bs (Get_deposit_rate_data start_date end_date) =
     fetch_macro_data_try bs ''query_deposit_rate_data'' ''Deposit Rate'' start_date end_date []"
| "BaostockDataSource_try bs (Get_loan_rate_data start_date end_date) =
     fetch_macro_data_try bs ''query_loan_rate_data'' ''Loan Rate'' start_date end_date []"
| "BaostockDataSource_try bs (Get_required_reserve_ratio_data start_date end_date year_type) =
     fetch_macro_data_try bs ''query_required_reserve_ratio_data'' ''Required Reserve Ratio''
       start_date end_date [(''yearType'', PyStr year_type)]"
| "BaostockDataSource_try bs (Get_money_supply_data_month start_date end_date) =
     fetch_macro_data_try bs ''query_money_supply_data_month'' ''Monthly Money Supply''
       start_date end_date []"
| "BaostockDataSource_try bs (Get_money_supply_data_year start_date end_date) =
     fetch_macro_data_try bs ''query_money_supply_data_year'' ''Yearly Money Supply''
       start_date end_date []"

section \<open>Calendar arithmetic and date strings\<close>

text \<open>
  The proleptic Gregorian ordinal of a date (day 1 is 0001-01-01) and its inverse, as the
  \<open>datetime\<close> module computes them; \<open>d - timedelta(days=n)\<close> raises \<open>OverflowError\<close>
  when it leaves the years 1 to 9999.
\<close>

definition days_before_year :: "int \<Rightarrow> int" where
  "days_before_year y = (let y1 = y - 1 in y1 * 365 + y1 div 4 - y1 div 100 + y1 div 400)"

definition DAYS_BEFORE_MONTH :: "int list" where
  "DAYS_BEFORE_MONTH = [0, 31, 59, 90, 120, 151, 181, 212, 243, 273, 304, 334]"

definition days_before_month :: "int \<Rightarrow> int \<Rightarrow> int" where
  "days_before_month y m =
     DAYS_BEFORE_MONTH ! nat (m - 1) + (if m > 2 \<and> is_leap y then 1 else 0)"

definition ymd2ord :: "datetime \<Rightarrow> int" where
  "ymd2ord d = days_before_year (year d) + days_before_month (year d) (month d) + day d"

definition ord2ymd :: "int \<Rightarrow> datetime" where
  "ord2ymd n =
     (let n0 = n - 1;
          n400 = n0 div 146097; r = n0 mod 146097;
          n100 = r div 36524; r1 = r mod 36524;
          n4 = r1 div 1461; r2 = r1 mod 1461;
          n1 = r2 div 365; r3 = r2 mod 365;
          y = n400 * 400 + 1 + n100 * 100 + n4 * 4 + n1
      in if n1 = 4 \<or> n100 = 4 then \<lparr>year = y - 1, month = 12, day = 31\<rparr>
         else
           let leapyear = (n1 = 3 \<and> (n4 \<noteq> 24 \<or> n100 = 3));
               m = (r3 + 50) div 32;
               preceding = DAYS_BEFORE_MONTH ! nat (m - 1) + (if m > 2 \<and> leapyear then 1 else 0)
           in if preceding > r3 then
                \<lparr>year = y, month = m - 1,
                 day = r3 - (preceding - ((if m - 1 = 2 then 28
                                           else if m - 1 = 4 \<or> m - 1 = 6 \<or> m - 1 = 9 \<or> m - 1 = 11
                                           then 30 else 31) +
                                          (if m - 1 = 2 \<and> leapyear then 1 else 0))) + 1\<rparr>
              else \<lparr>year = y, month = m, day = r3 - preceding + 1\<rparr>)"

definition minus_days :: "datetime \<Rightarrow> int \<Rightarrow> exn + datetime" where
  "minus_days d n =
     (let ordinal = ymd2ord d - n
      in if 1 \<le> ordinal \<and> ordinal \<le> 3652059 then Inr (ord2ymd ordinal)
         else Inl (PyException ''OverflowError'' ''date value out of range''))"

text \<open>\<open>d.replace(day=n)\<close>.\<close>

definition replace_day :: "datetime \<Rightarrow> int \<Rightarrow> exn + datetime" where
  "replace_day d n = datetime_new (year d) (month d) n"

text \<open>
  \<open>d.strftime("%Y-%m-%d")\<close>, with the year written with four digits. Some C libraries
  print a year below 1000 without the leading zeros; the dates of the properties below
  are later.
\<close>

definition strftime :: "datetime \<Rightarrow> string" where
  "strftime d =
     zfill 4 (str_nat (nat (year d))) @ ''-'' @ zfill 2 (str_nat (nat (month d))) @ ''-'' @
     zfill 2 (str_nat (nat (day d)))"

text \<open>
  \<open>datetime.strptime(s, "%Y-%m-%d")\<close>: four digits, a month of one or two digits, a day
  of one or two digits (or a blank and a digit), nothing after them, and the date must
  exist. The digits are the ASCII digits (Python also takes the other decimal digits of
  Unicode). The messages print the string between single
  quotes, which is how Python prints a string without quotes or escapes.
\<close>

definition is_digit :: "char \<Rightarrow> bool" where
  "is_digit c = (c \<in> set ''0123456789'')"

definition digit_val :: "char \<Rightarrow> int" where
  "digit_val c = int (of_char c) - 48"

definition quoted :: "string \<Rightarrow> string" where
  "quoted s = [CHR 0x27] @ s @ [CHR 0x27]"

definition parse_month1 :: "string \<Rightarrow> (int \<times> string) option" where
  "parse_month1 s =
     (case s of
        a # b # rest \<Rightarrow>
          if a \<in> set ''123456789'' \<and> b = CHR ''-'' then Some (digit_val a, rest) else None
      | _ \<Rightarrow> None)"

definition parse_month :: "string \<Rightarrow> (int \<times> string) option" where
  "parse_month s =
     (case s of
        a # b # c # rest \<Rightarrow>
          if a = CHR ''1'' \<and> b \<in> set ''012'' \<and> c = CHR ''-'' then Some (10 + digit_val b, rest)
          else if a = CHR ''0'' \<and> b \<in> set ''123456789'' \<and> c = CHR ''-'' then Some (digit_val b, rest)
          else parse_month1 s
      | _ \<Rightarrow> parse_month1 s)"

definition parse_day :: "string \<Rightarrow> (int \<times> string) option" where
  "parse_day s =
     (case s of
        [] \<Rightarrow> None
      | [a] \<Rightarrow> if a \<in> set ''123456789'' then Some (digit_val a, []) else None
      | a # b # rest \<Rightarrow>
          if a = CHR ''3'' \<and> b \<in> set ''01'' then Some (30 + digit_val b, rest)
          else if a \<in> set ''12'' \<and> is_digit b then Some (10 * digit_val a + digit_val b, rest)
          else if a = CHR ''0'' \<and> b \<in> set ''123456789'' then Some (digit_val b, rest)
          else if a \<in> set ''123456789'' then Some (digit_val a, b # rest)
          else if a = CHR '' '' \<and> b \<in> set ''123456789'' then Some (digit_val b, rest)
          else None)"

definition no_match :: "string \<Rightarrow> exn" where
  "no_match s =
     ValueError (''time data '' @ quoted s @ '' does not match format '' @ quoted ''%Y-%m-%d'')"

definition strptime :: "string \<Rightarrow> exn + datetime" where
  "strptime s =
     (case s of
        y1 # y2 # y3 # y4 # sep # after_year \<Rightarrow>
          if is_digit y1 \<and> is_digit y2 \<and> is_digit y3 \<and> is_digit y4 \<and> sep = CHR ''-'' then
            (case parse_month after_year of
               None \<Rightarrow> Inl (no_match s)
             | Some (m, after_month) \<Rightarrow>
                 (case parse_day after_month of
                    None \<Rightarrow> Inl (no_match s)
                  | Some (d, rest) \<Rightarrow>
                      if rest \<noteq> [] then Inl (ValueError (''unconverted data remains: '' @ rest))
                      else datetime_new
                             (1000 * digit_val y1 + 100 * digit_val y2 + 10 * digit_val y3 + digit_val y4)
                             m d))
          else Inl (no_match s)
      | _ \<Rightarrow> Inl (no_match s))"

section \<open>Reading a table\<close>

text \<open>
  \<open>df[name]\<close> for a label: the cells of that column, or \<open>KeyError\<close>; and \<open>df[keep]\<close>
  for a list of booleans, one per row. The labels of a frame are taken as distinct, as
  the provider's are.
\<close>

fun index_of :: "string \<Rightarrow> string list \<Rightarrow> nat option" where
  "index_of x [] = None"
| "index_of x (y # ys) = (if x = y then Some 0 else map_option Suc (index_of x ys))"

definition getitem :: "DataFrame \<Rightarrow> string \<Rightarrow> exn + string option list" where
  "getitem df name =
     (case index_of name (columns df) of
        None \<Rightarrow> Inl (PyException ''KeyError'' (quoted name))
      | Some i \<Rightarrow> Inr (map (\<lambda>r. r ! i) (rows df)))"

definition filter_rows :: "DataFrame \<Rightarrow> bool list \<Rightarrow> DataFrame" where
  "filter_rows df keep = \<lparr>columns = columns df, rows = map fst (filter snd (zip (rows df) keep))\<rparr>"

section \<open>The trading-day tools of \<open>date_utils.py\<close>\<close>

text \<open>
  The loop of \<open>get_latest_trading_date\<close> over the list \<open>valid_trading_days\<close>; comparing
  \<open>None\<close> with a string raises \<open>TypeError\<close>.
\<close>

fun latest_loop :: "string option list \<Rightarrow> string \<Rightarrow> string option \<Rightarrow> exn + string option" where
  "latest_loop [] today latest_trading_date = Inr latest_trading_date"
| "latest_loop (None # ds) today latest_trading_date =
     Inl (PyException ''TypeError''
            (quoted ''<='' @ '' not supported between instances of '' @
             quoted ''NoneType'' @ '' and '' @ quoted ''str''))"
| "latest_loop (Some dstr # ds) today latest_trading_date =
     (if dstr \<le> today \<and>
         (case latest_trading_date of None \<Rightarrow> True | Some l \<Rightarrow> dstr > l)
      then latest_loop ds today (Some dstr)
      else latest_loop ds today latest_trading_date)"

text \<open>
  The tools take the data source (here: the provider behind \<open>BaostockDataSource\<close>); the
  clock is read once per call (\<open>now\<close>).
\<close>

definition get_latest_trading_date :: "provider \<Rightarrow> datetime \<Rightarrow> string io" where
  "get_latest_trading_date bs now =
     andthen (emit (Log INFO ''Tool 'get_latest_trading_date' called'')) (\<lambda>_.
     try_except
       (let today = strftime now in
        andthen (lift (replace_day now 1)) (\<lambda>first_day.
        let start_date = strftime first_day in
        andthen (lift (replace_day now 28)) (\<lambda>day_28.
        let end_date = strftime day_28 in
        andthen (get_trade_dates bs (Some start_date) (Some end_date)) (\<lambda>df.
        andthen (lift (getitem df ''is_trading_day'')) (\<lambda>flags.
        andthen (lift (getitem (filter_rows df (map (\<lambda>c. c = Some ''1'') flags)) ''calendar_date''))
          (\<lambda>valid_trading_days.
        andthen (lift (latest_loop valid_trading_days today None)) (\<lambda>latest_trading_date.
        case latest_trading_date of
          None \<Rightarrow>
            andthen (emit (Log WARNING ''No trading dates found before today, returning today's date''))
              (\<lambda>_. ret today)
        | Some l \<Rightarrow>
            if l \<noteq> [] then
              andthen (emit (Log INFO (''Latest trading date found: '' @ l))) (\<lambda>_. ret l)
            else
              andthen (emit (Log WARNING ''No trading dates found before today, returning today's date''))
                (\<lambda>_. ret today))))))))
       (\<lambda>e.
          andthen (emit (Log ERROR (''Error determining latest trading date: '' @ str_exn e))) (\<lambda>_.
          ret (strftime now))))"

text \<open>
  In the two tools below the frame is not empty where the columns are chosen, so
  \<open>df.columns[-1]\<close> and \<open>df.columns[0]\<close> exist. \<open>candidates\<close> holds the day cells
  of the selected rows: sorting the rows by that column and reading it in the last (first)
  row gives the last (first) of the sorted cells.
\<close>

definition previous_trading_day :: "provider \<Rightarrow> string \<Rightarrow> string io" where
  "previous_trading_day bs date =
     andthen (emit (Log INFO (''Tool 'previous_trading_day' called date='' @ date))) (\<lambda>_.
     try_except
       (andthen (lift (strptime date)) (\<lambda>d.
        andthen (lift (minus_days d 30)) (\<lambda>d_start.
        let start = strftime d_start; end' = date in
        andthen (get_trade_dates bs (Some start) (Some end')) (\<lambda>df.
        if empty_df df then ret date
        else
          let flag_col = (if ''is_trading_day'' \<in> set (columns df) then ''is_trading_day''
                          else last (columns df));
              day_col = (if ''calendar_date'' \<in> set (columns df) then ''calendar_date''
                         else hd (columns df))
          in
          andthen (lift (getitem df flag_col)) (\<lambda>flags.
          andthen (lift (getitem df day_col)) (\<lambda>days.
          let candidates =
                sort (concat (map (\<lambda>(f, c). case c of
                                       None \<Rightarrow> []
                                     | Some s \<Rightarrow> if f = Some ''1'' \<and> s < date then [s] else [])
                                  (zip flags days)))
          in if candidates = [] then ret date else ret (last candidates)))))))
       (\<lambda>e.
          andthen (emit (Log ERROR (''Exception processing previous_trading_day: '' @ str_exn e))) (\<lambda>_.
          ret (''Error: '' @ str_exn e))))"

definition next_trading_day :: "provider \<Rightarrow> string \<Rightarrow> string io" where
  "next_trading_day bs date =
     andthen (emit (Log INFO (''Tool 'next_trading_day' called date='' @ date))) (\<lambda>_.
     try_except
       (andthen (lift (strptime date)) (\<lambda>d.
        let start = date in
        andthen (lift (minus_days d (- 30))) (\<lambda>d_end.
        let end' = strftime d_end in
        andthen (get_trade_dates bs (Some start) (Some end')) (\<lambda>df.
        if empty_df df then ret date
        else
          let flag_col = (if ''is_trading_day'' \<in> set (columns df) then ''is_trading_day''
                          else last (columns df));
              day_col = (if ''calendar_date'' \<in> set (columns df) then ''calendar_date''
                         else hd (columns df))
          in
          andthen (lift (getitem df flag_col)) (\<lambda>flags.
          andthen (lift (getitem df day_col)) (\<lambda>days.
          let candidates =
                sort (concat (map (\<lambda>(f, c). case c of
                                       None \<Rightarrow> []
                                     | Some s \<Rightarrow> if f = Some ''1'' \<and> s > date then [s] else [])
                                  (zip flags days)))
          in if candidates = [] then ret date else ret (hd candidates)))))))
       (\<lambda>e.
          andthen (emit (Log ERROR (''Exception processing next_trading_day: '' @ str_exn e))) (\<lambda>_.
          ret (''Error: '' @ str_exn e))))"

section \<open>The shape the fetch methods share\<close>

text \<open>
  The test that a method applies to a result whose status is not \<open>'0'\<close> before it
  chooses between \<open>NoDataFoundError\<close> and \<open>DataSourceError\<close>.
\<close>

definition no_record_rule :: "result_data \<Rightarrow> bool" where
  "no_record_rule rs =
     (contains ''no record found'' (lower (error_msg rs)) \<or> error_code rs = ''10002'')"

text \<open>
  The body of a \<open>try\<close> statement of the data source with its parts as parameters: the
  provider call, the test above (or the test that never holds), the three messages, and
  what is done with the table. It is used to state and prove properties of all methods at
  once; each method is shown below to be an instance.
\<close>

definition fetch_shape ::
  "provider \<Rightarrow> bs_call \<Rightarrow> (result_data \<Rightarrow> bool) \<Rightarrow> (result_data \<Rightarrow> string) \<Rightarrow>
   (result_data \<Rightarrow> string) \<Rightarrow> string \<Rightarrow> (DataFrame \<Rightarrow> DataFrame io) \<Rightarrow> DataFrame io" where
  "fetch_shape bs c rule nodata_msg error_msg' empty_msg post =
     baostock_login_context bs
       (andthen (bs_query bs c) (\<lambda>rs.
        if error_code rs \<noteq> ''0'' then
          (if rule rs then raise (NoDataFoundError (nodata_msg rs))
           else raise (DataSourceError (error_msg' rs)))
        else
          andthen (lift (drain (cursor rs) [])) (\<lambda>data_list.
          if data_list = [] then raise (NoDataFoundError empty_msg)
          else andthen (lift (pd_DataFrame data_list (rs_fields rs))) post)))"

text \<open>
  The methods that apply the test for "no record found" (all but \<open>get_trade_dates\<close>),
  and the calls that select columns of the table (\<open>get_stock_basic_info\<close> with a
  non-empty list of fields).
\<close>

fun applies_no_record_rule :: "method_call \<Rightarrow> bool" where
  "applies_no_record_rule (Get_trade_dates start_date end_date) = False"
| "applies_no_record_rule c = True"

fun selects_columns :: "method_call \<Rightarrow> bool" where
  "selects_columns (Get_stock_basic_info code (Some fs)) = (fs \<noteq> [])"
| "selects_columns c = False"

section \<open>Properties\<close>

lemmas io_defs =
  andthen_def emit_def lift_def ret_def raise_def try_except_def try_finally_def bind_exn_def

lemmas fmt_defs =
  str_int_def fmt_02d_def zfill_def str_nat.simps digit_char_def nian_def yue_def

subsection \<open>The analysis timeframe\<close>

lemma days_in_month_ge: "28 \<le> days_in_month y m"
  by (simp add: days_in_month_def)

lemma datetime_new_first:
  "1 \<le> y \<Longrightarrow> y \<le> 9999 \<Longrightarrow> 1 \<le> m \<Longrightarrow> m \<le> 12 \<Longrightarrow>
   datetime_new y m 1 = Inr \<lparr>year = y, month = m, day = 1\<rparr>"
  using days_in_month_ge [of y m] by (simp add: datetime_new_def)

lemma valid_date_facts:
  assumes "valid_date now"
  shows "1 \<le> year now" and "year now \<le> 9999" and "1 \<le> month now" and "month now \<le> 12"
    and "min (days_in_month (year now) (month now)) (day now) = day now"
  using assms by (auto simp: valid_date_def)

lemma previous_month_first:
  assumes "valid_date now" and "2 \<le> year now"
  shows "month now = 1 \<Longrightarrow>
           datetime_new (year now - 1) 12 1 = Inr \<lparr>year = year now - 1, month = 12, day = 1\<rparr>"
    and "month now \<noteq> 1 \<Longrightarrow>
           datetime_new (year now) (month now - 1) 1 =
             Inr \<lparr>year = year now, month = month now - 1, day = 1\<rparr>"
  using valid_date_facts [OF assms(1)] assms(2) by (auto intro!: datetime_new_first)

text \<open>
  C9, as the specification states it, fails: on 2024-03-20 the period \<open>recent\<close> gives a
  window that starts on the first day of February and ends on the day of the call, in
  March; it is not the month of February at both ends.
\<close>

theorem timeframe_recent_late_counterexample:
  "fst (get_market_analysis_timeframe ''recent'' \<lparr>year = 2024, month = 3, day = 20\<rparr>) =
     Inr (''2024'' @ nian @ ''2'' @ yue @ ''-3'' @ yue @ '' (ISO: 2024-02-01 to 2024-03-20)'') \<and>
   fst (get_market_analysis_timeframe ''recent'' \<lparr>year = 2024, month = 3, day = 20\<rparr>) \<noteq>
     Inr (''2024'' @ nian @ ''2'' @ yue @ '' (ISO: 2024-02-01 to 2024-02-29)'')"
  by (simp add: get_market_analysis_timeframe_def io_defs same_def datetime_new_def
      days_in_month_def is_leap_def fmt_defs get_month_end_day_def Let_def)

text \<open>
  C9, amended: called with the period \<open>recent\<close> on a day of the month from the 15th on,
  the tool returns the window that starts on day 1 of the month before the current one
  (December of the year before, in January) and ends on the day of the call; the label
  names the two months. The clock reads a valid date after the year 1.
\<close>

theorem timeframe_recent_late:
  assumes "valid_date now" and "2 \<le> year now" and "15 \<le> day now"
  shows "fst (get_market_analysis_timeframe ''recent'' now) =
     Inr ((if month now = 1
           then str_int (year now - 1) @ nian @ str_int 12 @ yue @ ''-'' @
                str_int (year now) @ nian @ str_int 1 @ yue
           else str_int (year now) @ nian @ str_int (month now - 1) @ yue @ ''-'' @
                str_int (month now) @ yue) @
          '' (ISO: '' @
          (if month now = 1 then str_int (year now - 1) @ ''-'' @ fmt_02d 12
           else str_int (year now) @ ''-'' @ fmt_02d (month now - 1)) @ ''-01'' @
          '' to '' @
          str_int (year now) @ ''-'' @ fmt_02d (month now) @ ''-'' @ fmt_02d (day now) @ '')'')"
proof (cases "month now = 1")
  case True
  then show ?thesis
    using assms(3) valid_date_facts [OF assms(1)] previous_month_first(1) [OF assms(1,2)]
    by (simp add: get_market_analysis_timeframe_def io_defs same_def get_month_end_day_def Let_def)
next
  case False
  then show ?thesis
    using assms(3) valid_date_facts [OF assms(1)] previous_month_first(2) [OF assms(1,2)]
    by (simp add: get_market_analysis_timeframe_def io_defs same_def get_month_end_day_def Let_def)
qed

theorem timeframe_recent_late_witness:
  "valid_date \<lparr>year = 2025, month = 1, day = 15\<rparr> \<and> (2::int) \<le> 2025 \<and> (15::int) \<le> 15 \<and>
   fst (get_market_analysis_timeframe ''recent'' \<lparr>year = 2025, month = 1, day = 15\<rparr>) =
     Inr (''2024'' @ nian @ ''12'' @ yue @ ''-2025'' @ nian @ ''1'' @ yue @
          '' (ISO: 2024-12-01 to 2025-01-15)'')"
  using timeframe_recent_late [of "\<lparr>year = 2025, month = 1, day = 15\<rparr>"]
  by (simp add: valid_date_def days_in_month_def fmt_defs)

text \<open>
  C10: for every period other than \<open>recent\<close>, \<open>quarter\<close>, \<open>half_year\<close> and \<open>year\<close>
  the tool raises nothing and returns the label of the default window: from day 1 of the
  month before the current one (December of the year before, in January) to the day of the
  call. The clock reads a valid date after the year 1.
\<close>

theorem timeframe_default_window:
  assumes "valid_date now" and "2 \<le> year now"
    and "period \<notin> {''recent'', ''quarter'', ''half_year'', ''year''}"
  shows "fst (get_market_analysis_timeframe period now) =
     Inr ((if month now = 1
           then str_int (year now - 1) @ nian @ str_int 12 @ yue @ ''-'' @
                str_int (year now) @ nian @ str_int 1 @ yue
           else str_int (year now) @ nian @ str_int (month now - 1) @ yue @ ''-'' @
                str_int (month now) @ yue) @
          '' (ISO: '' @
          (if month now = 1 then str_int (year now - 1) @ ''-'' @ fmt_02d 12
           else str_int (year now) @ ''-'' @ fmt_02d (month now - 1)) @ ''-01'' @
          '' to '' @
          str_int (year now) @ ''-'' @ fmt_02d (month now) @ ''-'' @ fmt_02d (day now) @ '')'')"
proof (cases "month now = 1")
  case True
  then show ?thesis
    using assms(3) valid_date_facts [OF assms(1)] previous_month_first(1) [OF assms(1,2)]
    by (simp add: get_market_analysis_timeframe_def io_defs same_def get_month_end_day_def Let_def)
next
  case False
  then show ?thesis
    using assms(3) valid_date_facts [OF assms(1)] previous_month_first(2) [OF assms(1,2)]
    by (simp add: get_market_analysis_timeframe_def io_defs same_def get_month_end_day_def Let_def)
qed

theorem timeframe_default_window_witness:
  "valid_date \<lparr>year = 2024, month = 1, day = 20\<rparr> \<and> (2::int) \<le> 2024 \<and>
   ''recnet'' \<notin> {''recent'', ''quarter'', ''half_year'', ''year''} \<and>
   fst (get_market_analysis_timeframe ''recnet'' \<lparr>year = 2024, month = 1, day = 20\<rparr>) =
     Inr (''2023'' @ nian @ ''12'' @ yue @ ''-2024'' @ nian @ ''1'' @ yue @
          '' (ISO: 2023-12-01 to 2024-01-20)'')"
  using timeframe_default_window [of "\<lparr>year = 2024, month = 1, day = 20\<rparr>" "''recnet''"]
  by (simp add: valid_date_def days_in_month_def fmt_defs)

subsection \<open>The session context\<close>

lemma session_context_login_ok:
  assumes "login bs = Inr lg" and "error_code lg = ''0''"
  shows "baostock_login_context bs body =
     ((case logout bs of None \<Rightarrow> fst body | Some e \<Rightarrow> Inl e),
      [Stdout_to_devnull, Log DEBUG ''Attempting Baostock login...'', Called_login,
       Log DEBUG (''Login result: code='' @ error_code lg @ '', msg='' @ error_msg lg),
       Stdout_restored, Log INFO ''Baostock login successful.''] @
      snd body @
      [Stdout_to_devnull, Log DEBUG ''Attempting Baostock logout...'', Called_logout] @
      (case logout bs of
         None \<Rightarrow> [Log DEBUG ''Logout completed.'', Stdout_restored,
                  Log INFO ''Baostock logout successful.'']
       | Some e \<Rightarrow> []))"
  using assms
  by (cases body)
    (simp add: baostock_login_context_def io_defs bs_login_def bs_logout_def split: option.splits)

lemma session_context_login_refused:
  assumes "login bs = Inr lg" and "error_code lg \<noteq> ''0''"
  shows "baostock_login_context bs body =
     (Inl (LoginError (''Baostock login failed: '' @ error_msg lg)),
      [Stdout_to_devnull, Log DEBUG ''Attempting Baostock login...'', Called_login,
       Log DEBUG (''Login result: code='' @ error_code lg @ '', msg='' @ error_msg lg),
       Stdout_restored, Log ERROR (''Baostock login failed: '' @ error_msg lg)])"
  using assms
  by (simp add: baostock_login_context_def io_defs bs_login_def)

lemma session_context_login_raises:
  assumes "login bs = Inl e"
  shows "baostock_login_context bs body =
     (Inl e, [Stdout_to_devnull, Log DEBUG ''Attempting Baostock login...'', Called_login])"
  using assms
  by (simp add: baostock_login_context_def io_defs bs_login_def)

text \<open>
  C3: a body that ends with the result \<open>r\<close> (a value or any exception) after causing the
  events \<open>evs\<close> is run under the session context. If the login returns the status \<open>'0'\<close>,
  the body runs and \<open>bs.logout()\<close> is called after the events of the body, whatever
  \<open>r\<close> is. If the login returns another status, the context raises \<open>LoginError\<close> with
  the provider's message, and neither the events of the body nor a logout occur.
\<close>

theorem session_context_releases:
  assumes "login bs = Inr lg"
  shows "(error_code lg = ''0'' \<longrightarrow>
            baostock_login_context bs (r, evs) =
              ((case logout bs of None \<Rightarrow> r | Some e \<Rightarrow> Inl e),
               [Stdout_to_devnull, Log DEBUG ''Attempting Baostock login...'', Called_login,
                Log DEBUG (''Login result: code='' @ error_code lg @ '', msg='' @ error_msg lg),
                Stdout_restored, Log INFO ''Baostock login successful.''] @
               evs @
               [Stdout_to_devnull, Log DEBUG ''Attempting Baostock logout...'', Called_logout] @
               (case logout bs of
                  None \<Rightarrow> [Log DEBUG ''Logout completed.'', Stdout_restored,
                           Log INFO ''Baostock logout successful.'']
                | Some e \<Rightarrow> []))) \<and>
         (error_code lg \<noteq> ''0'' \<longrightarrow>
            baostock_login_context bs (r, evs) =
              (Inl (LoginError (''Baostock login failed: '' @ error_msg lg)),
               [Stdout_to_devnull, Log DEBUG ''Attempting Baostock login...'', Called_login,
                Log DEBUG (''Login result: code='' @ error_code lg @ '', msg='' @ error_msg lg),
                Stdout_restored, Log ERROR (''Baostock login failed: '' @ error_msg lg)]))"
proof (cases "error_code lg = ''0''")
  case True
  then show ?thesis
    using session_context_login_ok [OF assms True, of "(r, evs)"]
    by (simp split: option.splits)
next
  case False
  then show ?thesis
    using session_context_login_refused [OF assms False, of "(r, evs)"] by simp
qed

theorem session_context_releases_witness:
  "baostock_login_context
     \<lparr>login = Inr \<lparr>error_code = ''0'', error_msg = ''success!''\<rparr>,
      query = (\<lambda>c. Inl (PyException ''RuntimeError'' ''boom'')),
      logout = None\<rparr>
     (Inl (PyException ''RuntimeError'' ''boom'') :: exn + unit,
      [Called_query (Bs_call ''query_all_stock'' [] [(''day'', PyNone)])]) =
   (Inl (PyException ''RuntimeError'' ''boom''),
    [Stdout_to_devnull, Log DEBUG ''Attempting Baostock login...'', Called_login,
     Log DEBUG ''Login result: code=0, msg=success!'',
     Stdout_restored, Log INFO ''Baostock login successful.'',
     Called_query (Bs_call ''query_all_stock'' [] [(''day'', PyNone)]),
     Stdout_to_devnull, Log DEBUG ''Attempting Baostock logout...'', Called_logout,
     Log DEBUG ''Logout completed.'', Stdout_restored, Log INFO ''Baostock logout successful.'']) \<and>
   baostock_login_context
     \<lparr>login = Inr \<lparr>error_code = ''10001001'', error_msg = ''network error''\<rparr>,
      query = (\<lambda>c. Inl (PyException ''RuntimeError'' ''boom'')),
      logout = None\<rparr>
     (Inr () :: exn + unit,
      [Called_query (Bs_call ''query_all_stock'' [] [(''day'', PyNone)])]) =
   (Inl (LoginError ''Baostock login failed: network error''),
    [Stdout_to_devnull, Log DEBUG ''Attempting Baostock login...'', Called_login,
     Log DEBUG ''Login result: code=10001001, msg=network error'',
     Stdout_restored, Log ERROR ''Baostock login failed: network error''])"
  using
    session_context_releases [of
      "\<lparr>login = Inr \<lparr>error_code = ''0'', error_msg = ''success!''\<rparr>,
        query = (\<lambda>c. Inl (PyException ''RuntimeError'' ''boom'')), logout = None\<rparr>"
      "\<lparr>error_code = ''0'', error_msg = ''success!''\<rparr>"
      "Inl (PyException ''RuntimeError'' ''boom'') :: exn + unit"
      "[Called_query (Bs_call ''query_all_stock'' [] [(''day'', PyNone)])]"]
    session_context_releases [of
      "\<lparr>login = Inr \<lparr>error_code = ''10001001'', error_msg = ''network error''\<rparr>,
        query = (\<lambda>c. Inl (PyException ''RuntimeError'' ''boom'')), logout = None\<rparr>"
      "\<lparr>error_code = ''10001001'', error_msg = ''network error''\<rparr>"
      "Inr () :: exn + unit"
      "[Called_query (Bs_call ''query_all_stock'' [] [(''day'', PyNone)])]"]
  by simp

text \<open>
  C4, as the specification states it, fails: the body raises \<open>NoDataFoundError\<close>, the
  logout raises \<open>OSError\<close>, and the caller of the context receives the \<open>OSError\<close>.
\<close>

theorem logout_failure_counterexample:
  "fst (baostock_login_context
      \<lparr>login = Inr \<lparr>error_code = ''0'', error_msg = ''success!''\<rparr>,
       query = (\<lambda>c. Inl (PyException ''RuntimeError'' ''unused'')),
       logout = Some (PyException ''OSError'' ''connection lost'')\<rparr>
      (Inl (NoDataFoundError ''no rows'') :: exn + unit, [])) =
   Inl (PyException ''OSError'' ''connection lost'')"
  by (simp add: baostock_login_context_def io_defs bs_login_def bs_logout_def)

text \<open>
  C4, amended: if the login succeeded and \<open>bs.logout()\<close> raises an exception, the
  session context raises that exception to its caller in place of the value or the error
  of the body, and writes no log record after the call of the logout.
\<close>

theorem logout_failure_reaches_caller:
  assumes "login bs = Inr lg" and "error_code lg = ''0''" and "logout bs = Some e"
  shows "baostock_login_context bs (r, evs) =
     (Inl e,
      [Stdout_to_devnull, Log DEBUG ''Attempting Baostock login...'', Called_login,
       Log DEBUG (''Login result: code='' @ error_code lg @ '', msg='' @ error_msg lg),
       Stdout_restored, Log INFO ''Baostock login successful.''] @
      evs @
      [Stdout_to_devnull, Log DEBUG ''Attempting Baostock logout...'', Called_logout])"
  using session_context_login_ok [OF assms(1,2), of "(r, evs)"] assms(3)
  by (simp split: option.splits)

theorem logout_failure_reaches_caller_witness:
  "baostock_login_context
     \<lparr>login = Inr \<lparr>error_code = ''0'', error_msg = ''success!''\<rparr>,
      query = (\<lambda>c. Inl (PyException ''RuntimeError'' ''unused'')),
      logout = Some (PyException ''OSError'' ''connection lost'')\<rparr>
     (Inl (NoDataFoundError ''no rows'') :: exn + unit, []) =
   (Inl (PyException ''OSError'' ''connection lost''),
    [Stdout_to_devnull, Log DEBUG ''Attempting Baostock login...'', Called_login,
     Log DEBUG ''Login result: code=0, msg=success!'',
     Stdout_restored, Log INFO ''Baostock login successful.'',
     Stdout_to_devnull, Log DEBUG ''Attempting Baostock logout...'', Called_logout])"
  using logout_failure_reaches_caller [of
      "\<lparr>login = Inr \<lparr>error_code = ''0'', error_msg = ''success!''\<rparr>,
        query = (\<lambda>c. Inl (PyException ''RuntimeError'' ''unused'')),
        logout = Some (PyException ''OSError'' ''connection lost'')\<rparr>"
      "\<lparr>error_code = ''0'', error_msg = ''success!''\<rparr>"
      "PyException ''OSError'' ''connection lost''"
      "Inl (NoDataFoundError ''no rows'') :: exn + unit" "[]"]
  by simp

subsection \<open>The data source\<close>

lemma fst_andthen:
  "fst (andthen m f) = (case fst m of Inl e \<Rightarrow> Inl e | Inr x \<Rightarrow> fst (f x))"
  by (simp add: andthen_def split: prod.splits sum.splits)

lemma fst_context:
  "fst (baostock_login_context bs body) =
     (case login bs of
        Inl e \<Rightarrow> Inl e
      | Inr lg \<Rightarrow>
          if error_code lg \<noteq> ''0'' then Inl (LoginError (''Baostock login failed: '' @ error_msg lg))
          else (case logout bs of None \<Rightarrow> fst body | Some e \<Rightarrow> Inl e))"
  by (cases body)
    (simp add: baostock_login_context_def io_defs bs_login_def bs_logout_def
      split: sum.splits option.splits)

lemma fst_guard:
  "fst (try_except m (\<lambda>e. if known_error e then raise e else raise (DataSourceError (f e)))) =
     (case fst m of
        Inr x \<Rightarrow> Inr x
      | Inl e \<Rightarrow> Inl (if known_error e then e else DataSourceError (f e)))"
  by (simp add: try_except_def raise_def split: prod.splits sum.splits)

lemma fst_fetch_shape:
  "fst (fetch_shape bs c rule nodata dse emp post) =
     (case login bs of
        Inl e \<Rightarrow> Inl e
      | Inr lg \<Rightarrow>
          if error_code lg \<noteq> ''0'' then Inl (LoginError (''Baostock login failed: '' @ error_msg lg))
          else
            (case logout bs of
               Some e \<Rightarrow> Inl e
             | None \<Rightarrow>
                 (case query bs c of
                    Inl e \<Rightarrow> Inl e
                  | Inr rs \<Rightarrow>
                      if error_code rs \<noteq> ''0'' then
                        (if rule rs then Inl (NoDataFoundError (nodata rs))
                         else Inl (DataSourceError (dse rs)))
                      else
                        (case drain (cursor rs) [] of
                           Inl e \<Rightarrow> Inl e
                         | Inr data_list \<Rightarrow>
                             if data_list = [] then Inl (NoDataFoundError emp)
                             else
                               (case pd_DataFrame data_list (rs_fields rs) of
                                  Inl e \<Rightarrow> Inl e
                                | Inr df \<Rightarrow> fst (post df))))))"
  by (simp add: fetch_shape_def fst_context fst_andthen bs_query_def lift_def raise_def
      split: sum.splits option.splits)

lemma pd_DataFrame_rows:
  "pd_DataFrame data_list cols = Inr df \<Longrightarrow> length (rows df) = length data_list"
  by (auto simp: pd_DataFrame_def Let_def split: if_splits)

lemma pd_DataFrame_exact:
  assumes "\<forall>r \<in> set data_list. length r = length cols"
  shows "pd_DataFrame data_list cols = Inr \<lparr>columns = cols, rows = map (map Some) data_list\<rparr>"
proof (cases "data_list = []")
  case True
  then show ?thesis by (simp add: pd_DataFrame_def)
next
  case False
  have w: "foldr (\<lambda>r w. max (length r) w) xs 0 = (if xs = [] then 0 else length cols)"
    if "\<forall>r \<in> set xs. length r = length cols" for xs
    using that by (induction xs) auto
  show ?thesis
    using False assms w [OF assms] by (simp add: pd_DataFrame_def Let_def)
qed

lemma fetch_shape_InrD:
  assumes "fst (fetch_shape bs c rule nodata dse emp post) = Inr d"
  shows "\<exists>rs data_list df. query bs c = Inr rs \<and> error_code rs = ''0'' \<and>
           drain (cursor rs) [] = Inr data_list \<and> data_list \<noteq> [] \<and>
           pd_DataFrame data_list (rs_fields rs) = Inr df \<and> fst (post df) = Inr d"
  using assms
  by (auto simp: fst_fetch_shape split: sum.splits option.splits if_splits)

lemma fetch_shape_nonempty:
  assumes "fst (fetch_shape bs c rule nodata dse emp post) = Inr d"
    and "\<forall>df d. fst (post df) = Inr d \<longrightarrow> length (rows d) = length (rows df)"
  shows "rows d \<noteq> []"
proof -
  obtain data_list cols df where "data_list \<noteq> []"
    and "pd_DataFrame data_list cols = Inr df" and "fst (post df) = Inr d"
    using fetch_shape_InrD [OF assms(1)] by blast
  then show ?thesis
    using assms(2) pd_DataFrame_rows [of data_list cols df] by (metis length_0_conv)
qed

lemma format_fields_total: "\<exists>s. format_fields fs d = Inr s"
  by (simp add: format_fields_def split: option.splits)

lemma andthen_lift_Inr: "andthen (lift (Inr x)) m = m x"
  by (simp add: andthen_def lift_def split: prod.splits)

lemma fetch_financial_data_try_shape:
  "\<exists>c nodata dse emp. \<forall>bs. fetch_financial_data_try bs f n code y q =
      fetch_shape bs c no_record_rule nodata dse emp ret"
  unfolding fetch_financial_data_try_def fetch_shape_def no_record_rule_def
  by (intro exI allI) (rule refl)

lemma fetch_index_constituent_data_try_shape:
  "\<exists>c nodata dse emp. \<forall>bs. fetch_index_constituent_data_try bs f n d =
      fetch_shape bs c no_record_rule nodata dse emp ret"
  unfolding fetch_index_constituent_data_try_def fetch_shape_def no_record_rule_def
  by (intro exI allI) (rule refl)

lemma fetch_macro_data_try_shape:
  "\<exists>c nodata dse emp. \<forall>bs. fetch_macro_data_try bs f n s e kw =
      fetch_shape bs c no_record_rule nodata dse emp ret"
  unfolding fetch_macro_data_try_def fetch_shape_def no_record_rule_def
  by (intro exI allI) (rule refl)

lemma get_historical_k_data_try_shape:
  "\<exists>c nodata dse emp. \<forall>bs. get_historical_k_data_try bs code s e fr ad fs =
      fetch_shape bs c no_record_rule nodata dse emp ret"
proof -
  obtain ff where ff: "format_fields fs DEFAULT_K_FIELDS = Inr ff"
    using format_fields_total by blast
  show ?thesis
    unfolding get_historical_k_data_try_def fetch_shape_def no_record_rule_def ff andthen_lift_Inr
    by (intro exI allI, rule refl)
qed

lemma get_stock_basic_info_try_shape:
  "\<exists>c nodata dse emp post. (\<forall>bs. get_stock_basic_info_try bs code fs =
      fetch_shape bs c no_record_rule nodata dse emp post) \<and>
      (\<not> selects_columns (Get_stock_basic_info code fs) \<longrightarrow> post = ret) \<and>
      (\<forall>df d. fst (post df) = Inr d \<longrightarrow> length (rows d) = length (rows df))"
  unfolding get_stock_basic_info_try_def fetch_shape_def no_record_rule_def
  apply (intro exI conjI allI)
    apply (rule refl)
   apply (cases fs; simp add: fun_eq_iff)
  apply (auto simp: ret_def raise_def select_columns_def Let_def split: option.splits if_splits)
  done

lemma get_dividend_data_try_shape:
  "\<exists>c nodata dse emp. \<forall>bs. get_dividend_data_try bs code y t =
      fetch_shape bs c no_record_rule nodata dse emp ret"
  unfolding get_dividend_data_try_def fetch_shape_def no_record_rule_def
  by (intro exI allI) (rule refl)

lemma get_adjust_factor_data_try_shape:
  "\<exists>c nodata dse emp. \<forall>bs. get_adjust_factor_data_try bs code s e =
      fetch_shape bs c no_record_rule nodata dse emp ret"
  unfolding get_adjust_factor_data_try_def fetch_shape_def no_record_rule_def
  by (intro exI allI) (rule refl)

lemma get_performance_express_report_try_shape:
  "\<exists>c nodata dse emp. \<forall>bs. get_performance_express_report_try bs code s e =
      fetch_shape bs c no_record_rule nodata dse emp ret"
  unfolding get_performance_express_report_try_def fetch_shape_def no_record_rule_def
  by (intro exI allI) (rule refl)

lemma get_forecast_report_try_shape:
  "\<exists>c nodata dse emp. \<forall>bs. get_forecast_report_try bs code s e =
      fetch_shape bs c no_record_rule nodata dse emp ret"
  unfolding get_forecast_report_try_def fetch_shape_def no_record_rule_def
  by (intro exI allI) (rule refl)

lemma get_stock_industry_try_shape:
  "\<exists>c nodata dse emp. \<forall>bs. get_stock_industry_try bs code d =
      fetch_shape bs c no_record_rule nodata dse emp ret"
  unfolding get_stock_industry_try_def fetch_shape_def no_record_rule_def
  by (intro exI allI) (rule refl)

lemma get_all_stock_try_shape:
  "\<exists>c nodata dse emp. \<forall>bs. get_all_stock_try bs d =
      fetch_shape bs c no_record_rule nodata dse emp ret"
  unfolding get_all_stock_try_def fetch_shape_def no_record_rule_def
  by (intro exI allI) (rule refl)

lemma get_trade_dates_try_shape:
  "\<exists>c nodata dse emp. \<forall>bs. get_trade_dates_try bs s e =
      fetch_shape bs c (\<lambda>rs. False) nodata dse emp ret"
  unfolding get_trade_dates_try_def fetch_shape_def if_False
  by (intro exI allI) (rule refl)

lemma method_shape:
  "\<exists>call rule nodata dse emp post.
     (\<forall>bs. BaostockDataSource_try bs c = fetch_shape bs call rule nodata dse emp post) \<and>
     rule = (if applies_no_record_rule c then no_record_rule else (\<lambda>rs. False)) \<and>
     (\<not> selects_columns c \<longrightarrow> post = ret) \<and>
     (\<forall>df d. fst (post df) = Inr d \<longrightarrow> length (rows d) = length (rows df))"
proof (cases c)
  case (Get_stock_basic_info code fs)
  then show ?thesis
    using get_stock_basic_info_try_shape [of code fs] by simp
next
  case (Get_trade_dates s e)
  then show ?thesis
    by (simp add: get_trade_dates_try_shape ret_def)
qed (simp_all add: ret_def fetch_financial_data_try_shape fetch_index_constituent_data_try_shape
      fetch_macro_data_try_shape get_historical_k_data_try_shape get_dividend_data_try_shape
      get_adjust_factor_data_try_shape get_performance_express_report_try_shape
      get_forecast_report_try_shape get_stock_industry_try_shape get_all_stock_try_shape)

lemma fetch_financial_data_guard:
  "\<exists>pre. \<forall>bs. fst (fetch_financial_data bs f n code y q) =
     (case fst (fetch_financial_data_try bs f n code y q) of
        Inr x \<Rightarrow> Inr x
      | Inl e \<Rightarrow> Inl (if known_error e then e else DataSourceError (pre @ str_exn e)))"
  unfolding fetch_financial_data_def fst_guard append_assoc [symmetric]
  by (intro exI allI) (rule refl)

lemma fetch_index_constituent_data_guard:
  "\<exists>pre. \<forall>bs. fst (fetch_index_constituent_data bs f n d) =
     (case fst (fetch_index_constituent_data_try bs f n d) of
        Inr x \<Rightarrow> Inr x
      | Inl e \<Rightarrow> Inl (if known_error e then e else DataSourceError (pre @ str_exn e)))"
  unfolding fetch_index_constituent_data_def fst_guard append_assoc [symmetric]
  by (intro exI allI) (rule refl)

lemma fetch_macro_data_guard:
  "\<exists>pre. \<forall>bs. fst (fetch_macro_data bs f n s e kw) =
     (case fst (fetch_macro_data_try bs f n s e kw) of
        Inr x \<Rightarrow> Inr x
      | Inl e \<Rightarrow> Inl (if known_error e then e else DataSourceError (pre @ str_exn e)))"
  unfolding fetch_macro_data_def fst_guard append_assoc [symmetric]
  by (intro exI allI) (rule refl)

lemma get_historical_k_data_guard:
  "\<exists>pre. \<forall>bs. fst (get_historical_k_data bs code s e fr ad fs) =
     (case fst (get_historical_k_data_try bs code s e fr ad fs) of
        Inr x \<Rightarrow> Inr x
      | Inl e \<Rightarrow> Inl (if known_error e then e else DataSourceError (pre @ str_exn e)))"
  unfolding get_historical_k_data_def fst_guard append_assoc [symmetric]
  by (intro exI allI) (rule refl)

lemma get_stock_basic_info_guard:
  "\<exists>pre. \<forall>bs. fst (get_stock_basic_info bs code fs) =
     (case fst (get_stock_basic_info_try bs code fs) of
        Inr x \<Rightarrow> Inr x
      | Inl e \<Rightarrow> Inl (if known_error e then e else DataSourceError (pre @ str_exn e)))"
  unfolding get_stock_basic_info_def fst_guard append_assoc [symmetric]
  by (intro exI allI) (rule refl)

lemma get_dividend_data_guard:
  "\<exists>pre. \<forall>bs. fst (get_dividend_data bs code y t) =
     (case fst (get_dividend_data_try bs code y t) of
        Inr x \<Rightarrow> Inr x
      | Inl e \<Rightarrow> Inl (if known_error e then e else DataSourceError (pre @ str_exn e)))"
  unfolding get_dividend_data_def fst_guard append_assoc [symmetric]
  by (intro exI allI) (rule refl)

lemma get_adjust_factor_data_guard:
  "\<exists>pre. \<forall>bs. fst (get_adjust_factor_data bs code s e) =
     (case fst (get_adjust_factor_data_try bs code s e) of
        Inr x \<Rightarrow> Inr x
      | Inl e \<Rightarrow> Inl (if known_error e then e else DataSourceError (pre @ str_exn e)))"
  unfolding get_adjust_factor_data_def fst_guard append_assoc [symmetric]
  by (intro exI allI) (rule refl)

lemma get_performance_express_report_guard:
  "\<exists>pre. \<forall>bs. fst (get_performance_express_report bs code s e) =
     (case fst (get_performance_express_report_try bs code s e) of
        Inr x \<Rightarrow> Inr x
      | Inl e \<Rightarrow> Inl (if known_error e then e else DataSourceError (pre @ str_exn e)))"
  unfolding get_performance_express_report_def fst_guard append_assoc [symmetric]
  by (intro exI allI) (rule refl)

lemma get_forecast_report_guard:
  "\<exists>pre. \<forall>bs. fst (get_forecast_report bs code s e) =
     (case fst (get_forecast_report_try bs code s e) of
        Inr x \<Rightarrow> Inr x
      | Inl e \<Rightarrow> Inl (if known_error e then e else DataSourceError (pre @ str_exn e)))"
  unfolding get_forecast_report_def fst_guard append_assoc [symmetric]
  by (intro exI allI) (rule refl)

lemma get_stock_industry_guard:
  "\<exists>pre. \<forall>bs. fst (get_stock_industry bs code d) =
     (case fst (get_stock_industry_try bs code d) of
        Inr x \<Rightarrow> Inr x
      | Inl e \<Rightarrow> Inl (if known_error e then e else DataSourceError (pre @ str_exn e)))"
  unfolding get_stock_industry_def fst_guard append_assoc [symmetric]
  by (intro exI allI) (rule refl)

lemma get_trade_dates_guard:
  "\<exists>pre. \<forall>bs. fst (get_trade_dates bs s e) =
     (case fst (get_trade_dates_try bs s e) of
        Inr x \<Rightarrow> Inr x
      | Inl e \<Rightarrow> Inl (if known_error e then e else DataSourceError (pre @ str_exn e)))"
  unfolding get_trade_dates_def fst_guard append_assoc [symmetric]
  by (intro exI allI) (rule refl)

lemma get_all_stock_guard:
  "\<exists>pre. \<forall>bs. fst (get_all_stock bs d) =
     (case fst (get_all_stock_try bs d) of
        Inr x \<Rightarrow> Inr x
      | Inl e \<Rightarrow> Inl (if known_error e then e else DataSourceError (pre @ str_exn e)))"
  unfolding get_all_stock_def fst_guard append_assoc [symmetric]
  by (intro exI allI) (rule refl)

lemma method_guard:
  "\<exists>pre. \<forall>bs. fst (BaostockDataSource bs c) =
     (case fst (BaostockDataSource_try bs c) of
        Inr x \<Rightarrow> Inr x
      | Inl e \<Rightarrow> Inl (if known_error e then e else DataSourceError (pre @ str_exn e)))"
  by (cases c)
    (simp_all add: fetch_financial_data_guard fetch_index_constituent_data_guard fetch_macro_data_guard get_historical_k_data_guard get_stock_basic_info_guard get_dividend_data_guard get_adjust_factor_data_guard get_performance_express_report_guard get_forecast_report_guard get_stock_industry_guard get_trade_dates_guard get_all_stock_guard)

lemma contains_iff: "contains sub s \<longleftrightarrow> (\<exists>pre post. s = pre @ sub @ post)"
proof (induction s)
  case Nil
  then show ?case by auto
next
  case (Cons c cs)
  show ?case
  proof
    assume "contains sub (c # cs)"
    then consider "prefix sub (c # cs)" | "contains sub cs" by auto
    then show "\<exists>pre post. c # cs = pre @ sub @ post"
    proof cases
      case 1
      then obtain post where "c # cs = sub @ post" by (auto simp: prefix_def)
      then have "c # cs = [] @ sub @ post" by simp
      then show ?thesis by blast
    next
      case 2
      then obtain pre post where "cs = pre @ sub @ post" using Cons.IH by blast
      then have "c # cs = (c # pre) @ sub @ post" by simp
      then show ?thesis by blast
    qed
  next
    assume "\<exists>pre post. c # cs = pre @ sub @ post"
    then obtain pre post where eq: "c # cs = pre @ sub @ post" by blast
    show "contains sub (c # cs)"
    proof (cases pre)
      case Nil
      then have "prefix sub (c # cs)" using eq by (simp add: prefix_def)
      then show ?thesis by simp
    next
      case (Cons p pre')
      then have "cs = pre' @ sub @ post" using eq by simp
      then have "contains sub cs" using Cons.IH by blast
      then show ?thesis by simp
    qed
  qed
qed

lemma contains_any_case:
  assumes "msg = pre @ w @ post" and "lower w = pat"
  shows "contains pat (lower msg)"
  using assms by (auto simp: contains_iff lower_def)

lemma method_Inr_iff:
  "fst (BaostockDataSource bs c) = Inr df \<longleftrightarrow> fst (BaostockDataSource_try bs c) = Inr df"
proof -
  obtain p where
    "fst (BaostockDataSource bs c) =
     (case fst (BaostockDataSource_try bs c) of
        Inr x \<Rightarrow> Inr x
      | Inl e \<Rightarrow> Inl (if known_error e then e else DataSourceError (p @ str_exn e)))"
    using method_guard [of c] by blast
  then show ?thesis
    by (cases "fst (BaostockDataSource_try bs c)") auto
qed

lemma method_try_fst:
  assumes "login bs = Inr lg" and "error_code lg = ''0''" and "logout bs = None"
    and "query bs = (\<lambda>q. Inr rs)"
  shows "\<exists>nodata dse emp post.
     fst (BaostockDataSource_try bs c) =
       (if error_code rs \<noteq> ''0'' then
          (if applies_no_record_rule c \<and> no_record_rule rs then Inl (NoDataFoundError (nodata rs))
           else Inl (DataSourceError (dse rs)))
        else
          (case drain (cursor rs) [] of
             Inl e \<Rightarrow> Inl e
           | Inr data_list \<Rightarrow>
               if data_list = [] then Inl (NoDataFoundError emp)
               else
                 (case pd_DataFrame data_list (rs_fields rs) of
                    Inl e \<Rightarrow> Inl e
                  | Inr df \<Rightarrow> fst (post df)))) \<and>
     (\<not> selects_columns c \<longrightarrow> post = ret)"
proof -
  obtain call rule nodata dse emp post where
    sh: "\<forall>bs. BaostockDataSource_try bs c = fetch_shape bs call rule nodata dse emp post"
    and ru: "rule = (if applies_no_record_rule c then no_record_rule else (\<lambda>rs. False))"
    and po: "\<not> selects_columns c \<longrightarrow> post = ret"
    using method_shape [of c] by blast
  have "fst (BaostockDataSource_try bs c) =
       (if error_code rs \<noteq> ''0'' then
          (if applies_no_record_rule c \<and> no_record_rule rs then Inl (NoDataFoundError (nodata rs))
           else Inl (DataSourceError (dse rs)))
        else
          (case drain (cursor rs) [] of
             Inl e \<Rightarrow> Inl e
           | Inr data_list \<Rightarrow>
               if data_list = [] then Inl (NoDataFoundError emp)
               else
                 (case pd_DataFrame data_list (rs_fields rs) of
                    Inl e \<Rightarrow> Inl e
                  | Inr df \<Rightarrow> fst (post df))))"
    using assms by (simp add: sh ru fst_fetch_shape)
  then show ?thesis using po by blast
qed

lemma stock_basic_info_selected:
  assumes "login bs = Inr lg" and "error_code lg = ''0''" and "logout bs = None"
    and "query bs = (\<lambda>q. Inr rs)" and "error_code rs = ''0''"
    and "drain (cursor rs) [] = Inr data_list" and "data_list \<noteq> []"
    and "\<forall>r \<in> set data_list. length r = length (rs_fields rs)"
    and "fs \<noteq> []"
  shows "fst (get_stock_basic_info bs code (Some fs)) =
     (let available_cols = filter (\<lambda>col. col \<in> set (rs_fields rs)) fs
      in if available_cols = [] then
           Inl (ValueError (''None of the requested fields '' @ repr_list fs @
                            '' are available in the basic info result.''))
         else
           Inr (select_columns \<lparr>columns = rs_fields rs, rows = map (map Some) data_list\<rparr>
                  available_cols))"
  using assms
  by (simp add: get_stock_basic_info_def get_stock_basic_info_try_def fst_guard fst_context
      fst_andthen bs_query_def pd_DataFrame_exact Let_def lift_def raise_def ret_def)

text \<open>
  C1, as the specification states it, fails in two places. With the status \<open>'0'\<close> and
  one drained row, \<open>get_stock_basic_info\<close> called with a list of fields returns only the
  column asked for, and raises \<open>ValueError\<close> when no requested field is a column. With
  another status and the message "no record found", \<open>get_trade_dates\<close> raises
  \<open>DataSourceError\<close>.
\<close>

theorem classification_counterexample:
  "fst (BaostockDataSource
       \<lparr>login = Inr \<lparr>error_code = ''0'', error_msg = ''success!''\<rparr>,
        query = (\<lambda>q. Inr \<lparr>error_code = ''0'', error_msg = ''success'',
                           rs_fields = [''code'', ''code_name''],
                           cursor = Row [''sh.600000'', ''PFYH''] Exhausted\<rparr>),
        logout = None\<rparr>
       (Get_stock_basic_info ''sh.600000'' (Some [''code'']))) =
     Inr \<lparr>columns = [''code''], rows = [[Some ''sh.600000'']]\<rparr> \<and>
   fst (BaostockDataSource
       \<lparr>login = Inr \<lparr>error_code = ''0'', error_msg = ''success!''\<rparr>,
        query = (\<lambda>q. Inr \<lparr>error_code = ''0'', error_msg = ''success'',
                           rs_fields = [''code'', ''code_name''],
                           cursor = Row [''sh.600000'', ''PFYH''] Exhausted\<rparr>),
        logout = None\<rparr>
       (Get_stock_basic_info ''sh.600000'' (Some [''industry'']))) =
     Inl (ValueError (''None of the requested fields ['' @ [CHR 0x27] @ ''industry'' @ [CHR 0x27] @
                      ''] are available in the basic info result.'')) \<and>
   fst (BaostockDataSource
       \<lparr>login = Inr \<lparr>error_code = ''0'', error_msg = ''success!''\<rparr>,
        query = (\<lambda>q. Inr \<lparr>error_code = ''10004'', error_msg = ''no record found'',
                           rs_fields = [], cursor = Exhausted\<rparr>),
        logout = None\<rparr>
       (Get_trade_dates (Some ''2024-02-01'') (Some ''2024-02-29''))) =
     Inl (DataSourceError ''Baostock API error fetching trade dates: no record found (code: 10004)'')"
  by (simp add: get_stock_basic_info_def get_stock_basic_info_try_def
      get_trade_dates_def get_trade_dates_try_def fst_guard fst_context fst_andthen
      bs_query_def pd_DataFrame_def select_columns_def positions_def repr_list_def Let_def
      lift_def raise_def ret_def)

text \<open>
  C1, amended: in every fetch method, once the session is open (login status \<open>'0'\<close>),
  the provider answers the query with \<open>rs\<close> and the logout does not raise: a status
  \<open>'0'\<close> with no drained row raises \<open>NoDataFoundError\<close>; a status \<open>'0'\<close> with at least
  one drained row, each as wide as \<open>rs.fields\<close>, returns the table of exactly these rows,
  except that \<open>get_stock_basic_info\<close> called with a non-empty list of fields returns the
  columns of that table whose labels are requested (every row kept) and raises
  \<open>ValueError\<close> when none is; a status other than \<open>'0'\<close> whose message holds the words
  "no record found" in any mix of upper and lower case raises \<open>NoDataFoundError\<close>, which
  is not a \<open>DataSourceError\<close> value, in every method except \<open>get_trade_dates\<close>, which
  raises \<open>DataSourceError\<close> for every such status.
\<close>

theorem result_classification_by_method:
  assumes "login bs = Inr lg" and "error_code lg = ''0''" and "logout bs = None"
    and "query bs = (\<lambda>q. Inr rs)"
  shows "(error_code rs = ''0'' \<and> drain (cursor rs) [] = Inr [] \<longrightarrow>
            (\<exists>m. fst (BaostockDataSource bs c) = Inl (NoDataFoundError m))) \<and>
         (error_code rs = ''0'' \<and> drain (cursor rs) [] = Inr data_list \<and> data_list \<noteq> [] \<and>
          (\<forall>r \<in> set data_list. length r = length (rs_fields rs)) \<and> \<not> selects_columns c \<longrightarrow>
            fst (BaostockDataSource bs c) =
              Inr \<lparr>columns = rs_fields rs, rows = map (map Some) data_list\<rparr>) \<and>
         (error_code rs = ''0'' \<and> drain (cursor rs) [] = Inr data_list \<and> data_list \<noteq> [] \<and>
          (\<forall>r \<in> set data_list. length r = length (rs_fields rs)) \<and>
          c = Get_stock_basic_info code (Some fs) \<and> fs \<noteq> [] \<longrightarrow>
            fst (BaostockDataSource bs c) =
              (let available_cols = filter (\<lambda>col. col \<in> set (rs_fields rs)) fs
               in if available_cols = [] then
                    Inl (ValueError (''None of the requested fields '' @ repr_list fs @
                                     '' are available in the basic info result.''))
                  else
                    Inr (select_columns
                           \<lparr>columns = rs_fields rs, rows = map (map Some) data_list\<rparr>
                           available_cols))) \<and>
         (error_code rs \<noteq> ''0'' \<and> applies_no_record_rule c \<and>
          error_msg rs = pre @ w @ post \<and> lower w = ''no record found'' \<longrightarrow>
            (\<exists>m. fst (BaostockDataSource bs c) = Inl (NoDataFoundError m))) \<and>
         (error_code rs \<noteq> ''0'' \<and> \<not> applies_no_record_rule c \<longrightarrow>
            (\<exists>m. fst (BaostockDataSource bs c) = Inl (DataSourceError m)))"
proof -
  obtain nodata dse emp po where
    tr: "fst (BaostockDataSource_try bs c) =
       (if error_code rs \<noteq> ''0'' then
          (if applies_no_record_rule c \<and> no_record_rule rs then Inl (NoDataFoundError (nodata rs))
           else Inl (DataSourceError (dse rs)))
        else
          (case drain (cursor rs) [] of
             Inl e \<Rightarrow> Inl e
           | Inr data_list \<Rightarrow>
               if data_list = [] then Inl (NoDataFoundError emp)
               else
                 (case pd_DataFrame data_list (rs_fields rs) of
                    Inl e \<Rightarrow> Inl e
                  | Inr df \<Rightarrow> fst (po df))))"
    and po: "\<not> selects_columns c \<longrightarrow> po = ret"
    using method_try_fst [OF assms, of c] by blast
  obtain p where
    gd: "fst (BaostockDataSource bs c) =
     (case fst (BaostockDataSource_try bs c) of
        Inr x \<Rightarrow> Inr x
      | Inl e \<Rightarrow> Inl (if known_error e then e else DataSourceError (p @ str_exn e)))"
    using method_guard [of c] by blast
  have a: "error_code rs = ''0'' \<and> drain (cursor rs) [] = Inr [] \<longrightarrow>
            (\<exists>m. fst (BaostockDataSource bs c) = Inl (NoDataFoundError m))"
    by (simp add: gd tr)
  have b: "error_code rs = ''0'' \<and> drain (cursor rs) [] = Inr data_list \<and> data_list \<noteq> [] \<and>
          (\<forall>r \<in> set data_list. length r = length (rs_fields rs)) \<and> \<not> selects_columns c \<longrightarrow>
            fst (BaostockDataSource bs c) =
              Inr \<lparr>columns = rs_fields rs, rows = map (map Some) data_list\<rparr>"
    using po by (auto simp: gd tr pd_DataFrame_exact ret_def)
  have b2: "error_code rs = ''0'' \<and> drain (cursor rs) [] = Inr data_list \<and> data_list \<noteq> [] \<and>
          (\<forall>r \<in> set data_list. length r = length (rs_fields rs)) \<and>
          c = Get_stock_basic_info code (Some fs) \<and> fs \<noteq> [] \<longrightarrow>
            fst (BaostockDataSource bs c) =
              (let available_cols = filter (\<lambda>col. col \<in> set (rs_fields rs)) fs
               in if available_cols = [] then
                    Inl (ValueError (''None of the requested fields '' @ repr_list fs @
                                     '' are available in the basic info result.''))
                  else
                    Inr (select_columns
                           \<lparr>columns = rs_fields rs, rows = map (map Some) data_list\<rparr>
                           available_cols))"
    using stock_basic_info_selected [OF assms, of data_list fs code] by auto
  have c1: "error_code rs \<noteq> ''0'' \<and> applies_no_record_rule c \<and>
          error_msg rs = pre @ w @ post \<and> lower w = ''no record found'' \<longrightarrow>
            (\<exists>m. fst (BaostockDataSource bs c) = Inl (NoDataFoundError m))"
    using contains_any_case [of "error_msg rs" pre w post "''no record found''"]
    by (auto simp: gd tr no_record_rule_def)
  have c2: "error_code rs \<noteq> ''0'' \<and> \<not> applies_no_record_rule c \<longrightarrow>
            (\<exists>m. fst (BaostockDataSource bs c) = Inl (DataSourceError m))"
    by (auto simp: gd tr)
  show ?thesis using a b b2 c1 c2 by blast
qed


theorem result_classification_by_method_witness:
  "(\<exists>m. fst (BaostockDataSource
       \<lparr>login = Inr \<lparr>error_code = ''0'', error_msg = ''success!''\<rparr>,
        query = (\<lambda>q. Inr \<lparr>error_code = ''0'', error_msg = ''success'',
          rs_fields = [''code'', ''roeAvg''], cursor = Exhausted\<rparr>),
        logout = None\<rparr>
       (Get_profit_data ''sh.600000'' ''2023'' 4)) = Inl (NoDataFoundError m)) \<and>
   fst (BaostockDataSource
       \<lparr>login = Inr \<lparr>error_code = ''0'', error_msg = ''success!''\<rparr>,
        query = (\<lambda>q. Inr \<lparr>error_code = ''0'', error_msg = ''success'',
          rs_fields = [''code'', ''roeAvg''],
          cursor = Row [''sh.600000'', ''0.1''] (Row [''sh.600000'', ''0.2''] Exhausted)\<rparr>),
        logout = None\<rparr>
       (Get_profit_data ''sh.600000'' ''2023'' 4)) =
     Inr \<lparr>columns = [''code'', ''roeAvg''],
          rows = [[Some ''sh.600000'', Some ''0.1''], [Some ''sh.600000'', Some ''0.2'']]\<rparr> \<and>
   fst (BaostockDataSource
       \<lparr>login = Inr \<lparr>error_code = ''0'', error_msg = ''success!''\<rparr>,
        query = (\<lambda>q. Inr \<lparr>error_code = ''0'', error_msg = ''success'',
          rs_fields = [''code'', ''code_name''],
          cursor = Row [''sh.600000'', ''PFYH''] Exhausted\<rparr>),
        logout = None\<rparr>
       (Get_stock_basic_info ''sh.600000'' (Some [''code_name'', ''industry'']))) =
     Inr \<lparr>columns = [''code_name''], rows = [[Some ''PFYH'']]\<rparr> \<and>
   (\<exists>m. fst (BaostockDataSource
       \<lparr>login = Inr \<lparr>error_code = ''0'', error_msg = ''success!''\<rparr>,
        query = (\<lambda>q. Inr \<lparr>error_code = ''10004'', error_msg = ''Error: No Record Found, sorry'',
          rs_fields = [], cursor = Exhausted\<rparr>),
        logout = None\<rparr>
       (Get_profit_data ''sh.600000'' ''2023'' 4)) = Inl (NoDataFoundError m)) \<and>
   (\<exists>m. fst (BaostockDataSource
       \<lparr>login = Inr \<lparr>error_code = ''0'', error_msg = ''success!''\<rparr>,
        query = (\<lambda>q. Inr \<lparr>error_code = ''10004'', error_msg = ''Error: No Record Found, sorry'',
          rs_fields = [], cursor = Exhausted\<rparr>),
        logout = None\<rparr>
       (Get_trade_dates (Some ''2024-02-01'') (Some ''2024-02-29''))) = Inl (DataSourceError m))"
  using
    result_classification_by_method [where bs = "\<lparr>login = Inr \<lparr>error_code = ''0'', error_msg = ''success!''\<rparr>,
        query = (\<lambda>q. Inr \<lparr>error_code = ''0'', error_msg = ''success'',
          rs_fields = [''code'', ''roeAvg''], cursor = Exhausted\<rparr>),
        logout = None\<rparr>"
      and lg = "\<lparr>error_code = ''0'', error_msg = ''success!''\<rparr>"
      and rs = "\<lparr>error_code = ''0'', error_msg = ''success'',
          rs_fields = [''code'', ''roeAvg''], cursor = Exhausted\<rparr>"
      and c = "Get_profit_data ''sh.600000'' ''2023'' 4"]
    result_classification_by_method [where bs = "\<lparr>login = Inr \<lparr>error_code = ''0'', error_msg = ''success!''\<rparr>,
        query = (\<lambda>q. Inr \<lparr>error_code = ''0'', error_msg = ''success'',
          rs_fields = [''code'', ''roeAvg''],
          cursor = Row [''sh.600000'', ''0.1''] (Row [''sh.600000'', ''0.2''] Exhausted)\<rparr>),
        logout = None\<rparr>"
      and lg = "\<lparr>error_code = ''0'', error_msg = ''success!''\<rparr>"
      and rs = "\<lparr>error_code = ''0'', error_msg = ''success'',
          rs_fields = [''code'', ''roeAvg''],
          cursor = Row [''sh.600000'', ''0.1''] (Row [''sh.600000'', ''0.2''] Exhausted)\<rparr>"
      and c = "Get_profit_data ''sh.600000'' ''2023'' 4"
      and data_list = "[[''sh.600000'', ''0.1''], [''sh.600000'', ''0.2'']]"]
    result_classification_by_method [where bs = "\<lparr>login = Inr \<lparr>error_code = ''0'', error_msg = ''success!''\<rparr>,
        query = (\<lambda>q. Inr \<lparr>error_code = ''0'', error_msg = ''success'',
          rs_fields = [''code'', ''code_name''],
          cursor = Row [''sh.600000'', ''PFYH''] Exhausted\<rparr>),
        logout = None\<rparr>"
      and lg = "\<lparr>error_code = ''0'', error_msg = ''success!''\<rparr>"
      and rs = "\<lparr>error_code = ''0'', error_msg = ''success'',
          rs_fields = [''code'', ''code_name''],
          cursor = Row [''sh.600000'', ''PFYH''] Exhausted\<rparr>"
      and c = "Get_stock_basic_info ''sh.600000'' (Some [''code_name'', ''industry''])"
      and data_list = "[[''sh.600000'', ''PFYH'']]" and code = "''sh.600000''"
      and fs = "[''code_name'', ''industry'']"]
    result_classification_by_method [where bs = "\<lparr>login = Inr \<lparr>error_code = ''0'', error_msg = ''success!''\<rparr>,
        query = (\<lambda>q. Inr \<lparr>error_code = ''10004'', error_msg = ''Error: No Record Found, sorry'',
          rs_fields = [], cursor = Exhausted\<rparr>),
        logout = None\<rparr>"
      and lg = "\<lparr>error_code = ''0'', error_msg = ''success!''\<rparr>"
      and rs = "\<lparr>error_code = ''10004'', error_msg = ''Error: No Record Found, sorry'',
          rs_fields = [], cursor = Exhausted\<rparr>"
      and c = "Get_profit_data ''sh.600000'' ''2023'' 4"
      and pre = "''Error: ''" and w = "''No Record Found''" and post = "'', sorry''"]
    result_classification_by_method [where bs = "\<lparr>login = Inr \<lparr>error_code = ''0'', error_msg = ''success!''\<rparr>,
        query = (\<lambda>q. Inr \<lparr>error_code = ''10004'', error_msg = ''Error: No Record Found, sorry'',
          rs_fields = [], cursor = Exhausted\<rparr>),
        logout = None\<rparr>"
      and lg = "\<lparr>error_code = ''0'', error_msg = ''success!''\<rparr>"
      and rs = "\<lparr>error_code = ''10004'', error_msg = ''Error: No Record Found, sorry'',
          rs_fields = [], cursor = Exhausted\<rparr>"
      and c = "Get_trade_dates (Some ''2024-02-01'') (Some ''2024-02-29'')"]
  by (simp add: lower_def lower_char_def select_columns_def positions_def Let_def)

text \<open>
  C2: no fetch method returns a table without rows; and when the session is open, the
  status of the query is \<open>'0'\<close>, the cursor yields no row and the logout does not raise,
  the method raises \<open>NoDataFoundError\<close>.
\<close>

theorem fetch_table_never_empty:
  "(\<forall>df. fst (BaostockDataSource bs c) = Inr df \<longrightarrow> 0 < len_df df) \<and>
   (\<forall>lg rs. login bs = Inr lg \<and> error_code lg = ''0'' \<and> logout bs = None \<and>
      query bs = (\<lambda>q. Inr rs) \<and> error_code rs = ''0'' \<and> drain (cursor rs) [] = Inr [] \<longrightarrow>
      (\<exists>m. fst (BaostockDataSource bs c) = Inl (NoDataFoundError m)))"
proof (intro conjI allI impI)
  fix df
  assume "fst (BaostockDataSource bs c) = Inr df"
  then have t: "fst (BaostockDataSource_try bs c) = Inr df"
    by (simp add: method_Inr_iff)
  obtain call rule nodata dse emp post where
    sh: "\<forall>bs. BaostockDataSource_try bs c = fetch_shape bs call rule nodata dse emp post"
    and po: "\<forall>df d. fst (post df) = Inr d \<longrightarrow> length (rows d) = length (rows df)"
    using method_shape [of c] by blast
  have "rows df \<noteq> []"
    using fetch_shape_nonempty [of bs call rule nodata dse emp post df] t sh po by simp
  then show "0 < len_df df" by (simp add: len_df_def)
next
  fix lg rs
  assume h: "login bs = Inr lg \<and> error_code lg = ''0'' \<and> logout bs = None \<and>
      query bs = (\<lambda>q. Inr rs) \<and> error_code rs = ''0'' \<and> drain (cursor rs) [] = Inr []"
  obtain nodata dse emp po where
    tr: "fst (BaostockDataSource_try bs c) =
       (if error_code rs \<noteq> ''0'' then
          (if applies_no_record_rule c \<and> no_record_rule rs then Inl (NoDataFoundError (nodata rs))
           else Inl (DataSourceError (dse rs)))
        else
          (case drain (cursor rs) [] of
             Inl e \<Rightarrow> Inl e
           | Inr data_list \<Rightarrow>
               if data_list = [] then Inl (NoDataFoundError emp)
               else
                 (case pd_DataFrame data_list (rs_fields rs) of
                    Inl e \<Rightarrow> Inl e
                  | Inr df \<Rightarrow> fst (po df))))"
    and "\<not> selects_columns c \<longrightarrow> po = ret"
    using method_try_fst [of bs lg rs c] h by (elim conjE) blast
  obtain p where
    gd: "fst (BaostockDataSource bs c) =
     (case fst (BaostockDataSource_try bs c) of
        Inr x \<Rightarrow> Inr x
      | Inl e \<Rightarrow> Inl (if known_error e then e else DataSourceError (p @ str_exn e)))"
    using method_guard [of c] by blast
  show "\<exists>m. fst (BaostockDataSource bs c) = Inl (NoDataFoundError m)"
    using h by (simp add: gd tr)
qed

text \<open>
  C5: an exception that leaves a fetch method is a \<open>LoginError\<close>, a \<open>NoDataFoundError\<close>, a
  \<open>DataSourceError\<close> or a \<open>ValueError\<close>. If the body of the \<open>try\<close> statement ends with one
  of these four, the method raises the same exception; if it ends with any other exception,
  the method raises a \<open>DataSourceError\<close> whose message ends with the message of that
  exception; a table is returned as it is.
\<close>

theorem fetch_errors_are_typed:
  "(\<forall>e. fst (BaostockDataSource bs c) = Inl e \<longrightarrow> known_error e) \<and>
   (\<forall>e. fst (BaostockDataSource_try bs c) = Inl e \<and> known_error e \<longrightarrow>
      fst (BaostockDataSource bs c) = Inl e) \<and>
   (\<forall>e. fst (BaostockDataSource_try bs c) = Inl e \<and> \<not> known_error e \<longrightarrow>
      (\<exists>pre. fst (BaostockDataSource bs c) = Inl (DataSourceError (pre @ str_exn e)))) \<and>
   (\<forall>df. fst (BaostockDataSource_try bs c) = Inr df \<longrightarrow> fst (BaostockDataSource bs c) = Inr df)"
proof -
  obtain p where
    gd: "fst (BaostockDataSource bs c) =
     (case fst (BaostockDataSource_try bs c) of
        Inr x \<Rightarrow> Inr x
      | Inl e \<Rightarrow> Inl (if known_error e then e else DataSourceError (p @ str_exn e)))"
    using method_guard [of c] by blast
  show ?thesis
    by (cases "fst (BaostockDataSource_try bs c)") (auto simp: gd)
qed

text \<open>
  C6, as the specification states it, fails for the trade-date calendar: the status
  \<open>'10002'\<close> with the message "No Record Found" makes \<open>get_trade_dates\<close> raise
  \<open>DataSourceError\<close>.
\<close>

theorem no_record_rule_counterexample:
  "fst (BaostockDataSource
      \<lparr>login = Inr \<lparr>error_code = ''0'', error_msg = ''success!''\<rparr>,
       query = (\<lambda>q. Inr \<lparr>error_code = ''10002'', error_msg = ''No Record Found'',
                          rs_fields = [], cursor = Exhausted\<rparr>),
       logout = None\<rparr>
      (Get_trade_dates (Some ''2024-01-01'') (Some ''2024-01-31''))) =
   Inl (DataSourceError ''Baostock API error fetching trade dates: No Record Found (code: 10002)'')"
  by (simp add: get_trade_dates_def get_trade_dates_try_def fst_guard fst_context fst_andthen
      bs_query_def raise_def str_opt_def opt_arg_def)

text \<open>
  C6, amended: with the session open and a status of the query other than \<open>'0'\<close>, every
  fetch method except \<open>get_trade_dates\<close> raises \<open>NoDataFoundError\<close> when the message holds
  "no record found" (in any case of the letters) or the status is \<open>'10002'\<close>;
  \<open>get_trade_dates\<close> raises \<open>DataSourceError\<close> for every such status.
\<close>

theorem no_record_rule_by_method:
  assumes "login bs = Inr lg" and "error_code lg = ''0''" and "logout bs = None"
    and "query bs = (\<lambda>q. Inr rs)" and "error_code rs \<noteq> ''0''"
  shows "(applies_no_record_rule c \<and>
          (contains ''no record found'' (lower (error_msg rs)) \<or> error_code rs = ''10002'') \<longrightarrow>
            (\<exists>m. fst (BaostockDataSource bs c) = Inl (NoDataFoundError m))) \<and>
         (\<not> applies_no_record_rule c \<longrightarrow>
            (\<exists>m. fst (BaostockDataSource bs c) = Inl (DataSourceError m)))"
proof -
  obtain nodata dse emp po where
    tr: "fst (BaostockDataSource_try bs c) =
       (if error_code rs \<noteq> ''0'' then
          (if applies_no_record_rule c \<and> no_record_rule rs then Inl (NoDataFoundError (nodata rs))
           else Inl (DataSourceError (dse rs)))
        else
          (case drain (cursor rs) [] of
             Inl e \<Rightarrow> Inl e
           | Inr data_list \<Rightarrow>
               if data_list = [] then Inl (NoDataFoundError emp)
               else
                 (case pd_DataFrame data_list (rs_fields rs) of
                    Inl e \<Rightarrow> Inl e
                  | Inr df \<Rightarrow> fst (po df))))"
    and "\<not> selects_columns c \<longrightarrow> po = ret"
    using method_try_fst [OF assms(1-4), of c] by blast
  obtain p where
    gd: "fst (BaostockDataSource bs c) =
     (case fst (BaostockDataSource_try bs c) of
        Inr x \<Rightarrow> Inr x
      | Inl e \<Rightarrow> Inl (if known_error e then e else DataSourceError (p @ str_exn e)))"
    using method_guard [of c] by blast
  show ?thesis
    using assms(5) by (auto simp: gd tr no_record_rule_def)
qed


theorem fetch_table_never_empty_witness:
  "fst (BaostockDataSource
       \<lparr>login = Inr \<lparr>error_code = ''0'', error_msg = ''success!''\<rparr>,
        query = (\<lambda>q. Inr \<lparr>error_code = ''0'', error_msg = ''success'',
                           rs_fields = [''calendar_date'', ''is_trading_day''],
                           cursor = Row [''2024-01-02'', ''1''] Exhausted\<rparr>),
        logout = None\<rparr>
       (Get_trade_dates (Some ''2024-01-02'') (Some ''2024-01-02''))) =
     Inr \<lparr>columns = [''calendar_date'', ''is_trading_day''],
          rows = [[Some ''2024-01-02'', Some ''1'']]\<rparr> \<and>
   0 < len_df \<lparr>columns = [''calendar_date'', ''is_trading_day''],
                rows = [[Some ''2024-01-02'', Some ''1'']]\<rparr> \<and>
   (\<exists>m. fst (BaostockDataSource
       \<lparr>login = Inr \<lparr>error_code = ''0'', error_msg = ''success!''\<rparr>,
        query = (\<lambda>q. Inr \<lparr>error_code = ''0'', error_msg = ''success'',
                           rs_fields = [''calendar_date'', ''is_trading_day''],
                           cursor = Exhausted\<rparr>),
        logout = None\<rparr>
       (Get_trade_dates (Some ''2024-01-02'') (Some ''2024-01-02''))) = Inl (NoDataFoundError m))"
  using
    fetch_table_never_empty [of
      "\<lparr>login = Inr \<lparr>error_code = ''0'', error_msg = ''success!''\<rparr>,
        query = (\<lambda>q. Inr \<lparr>error_code = ''0'', error_msg = ''success'',
                           rs_fields = [''calendar_date'', ''is_trading_day''],
                           cursor = Row [''2024-01-02'', ''1''] Exhausted\<rparr>),
        logout = None\<rparr>"
      "Get_trade_dates (Some ''2024-01-02'') (Some ''2024-01-02'')"]
    fetch_table_never_empty [of
      "\<lparr>login = Inr \<lparr>error_code = ''0'', error_msg = ''success!''\<rparr>,
        query = (\<lambda>q. Inr \<lparr>error_code = ''0'', error_msg = ''success'',
                           rs_fields = [''calendar_date'', ''is_trading_day''],
                           cursor = Exhausted\<rparr>),
        logout = None\<rparr>"
      "Get_trade_dates (Some ''2024-01-02'') (Some ''2024-01-02'')"]
  by (simp add: get_trade_dates_def get_trade_dates_try_def fst_guard fst_context fst_andthen
      bs_query_def lift_def raise_def ret_def pd_DataFrame_def len_df_def)

theorem fetch_errors_are_typed_witness:
  "(\<exists>pre. fst (BaostockDataSource
       \<lparr>login = Inr \<lparr>error_code = ''0'', error_msg = ''success!''\<rparr>,
        query = (\<lambda>q. Inl (PyException ''ConnectionError'' ''timed out'')),
        logout = None\<rparr>
       (Get_all_stock None)) = Inl (DataSourceError (pre @ ''timed out''))) \<and>
   fst (BaostockDataSource
       \<lparr>login = Inr \<lparr>error_code = ''10001001'', error_msg = ''network error''\<rparr>,
        query = (\<lambda>q. Inl (PyException ''ConnectionError'' ''timed out'')),
        logout = None\<rparr>
       (Get_all_stock None)) = Inl (LoginError ''Baostock login failed: network error'')"
  using
    fetch_errors_are_typed [of
      "\<lparr>login = Inr \<lparr>error_code = ''0'', error_msg = ''success!''\<rparr>,
        query = (\<lambda>q. Inl (PyException ''ConnectionError'' ''timed out'')),
        logout = None\<rparr>"
      "Get_all_stock None"]
    fetch_errors_are_typed [of
      "\<lparr>login = Inr \<lparr>error_code = ''10001001'', error_msg = ''network error''\<rparr>,
        query = (\<lambda>q. Inl (PyException ''ConnectionError'' ''timed out'')),
        logout = None\<rparr>"
      "Get_all_stock None"]
  by (simp add: get_all_stock_try_def fst_context fst_andthen bs_query_def)

theorem no_record_rule_by_method_witness:
  "(\<exists>m. fst (BaostockDataSource
       \<lparr>login = Inr \<lparr>error_code = ''0'', error_msg = ''success!''\<rparr>,
        query = (\<lambda>q. Inr \<lparr>error_code = ''10002'', error_msg = ''nothing'',
                           rs_fields = [], cursor = Exhausted\<rparr>),
        logout = None\<rparr>
       (Get_all_stock None)) = Inl (NoDataFoundError m)) \<and>
   (\<exists>m. fst (BaostockDataSource
       \<lparr>login = Inr \<lparr>error_code = ''0'', error_msg = ''success!''\<rparr>,
        query = (\<lambda>q. Inr \<lparr>error_code = ''10002'', error_msg = ''nothing'',
                           rs_fields = [], cursor = Exhausted\<rparr>),
        logout = None\<rparr>
       (Get_trade_dates None None)) = Inl (DataSourceError m))"
  using
    no_record_rule_by_method [of
      "\<lparr>login = Inr \<lparr>error_code = ''0'', error_msg = ''success!''\<rparr>,
        query = (\<lambda>q. Inr \<lparr>error_code = ''10002'', error_msg = ''nothing'',
                           rs_fields = [], cursor = Exhausted\<rparr>),
        logout = None\<rparr>"
      "\<lparr>error_code = ''0'', error_msg = ''success!''\<rparr>"
      "\<lparr>error_code = ''10002'', error_msg = ''nothing'', rs_fields = [], cursor = Exhausted\<rparr>"
      "Get_all_stock None"]
    no_record_rule_by_method [of
      "\<lparr>login = Inr \<lparr>error_code = ''0'', error_msg = ''success!''\<rparr>,
        query = (\<lambda>q. Inr \<lparr>error_code = ''10002'', error_msg = ''nothing'',
                           rs_fields = [], cursor = Exhausted\<rparr>),
        logout = None\<rparr>"
      "\<lparr>error_code = ''0'', error_msg = ''success!''\<rparr>"
      "\<lparr>error_code = ''10002'', error_msg = ''nothing'', rs_fields = [], cursor = Exhausted\<rparr>"
      "Get_trade_dates None None"]
  by simp

subsection \<open>The trading-day tools\<close>

lemma snd_andthen:
  "snd (andthen m f) = snd m @ (case fst m of Inl e \<Rightarrow> [] | Inr x \<Rightarrow> snd (f x))"
  by (cases m) (simp add: andthen_def split: prod.splits sum.splits)

lemma snd_try_except:
  "snd (try_except m h) = snd m @ (case fst m of Inl e \<Rightarrow> snd (h e) | Inr x \<Rightarrow> [])"
  by (cases m) (simp add: try_except_def split: prod.splits sum.splits)

lemma fst_try_except:
  "fst (try_except m h) = (case fst m of Inl e \<Rightarrow> fst (h e) | Inr x \<Rightarrow> Inr x)"
  by (cases m) (simp add: try_except_def split: prod.splits sum.splits)

lemma io_basic [simp]:
  "fst (ret x) = Inr x" "snd (ret x) = []"
  "fst (raise e) = Inl e" "snd (raise e) = []"
  "fst (emit ev) = Inr ()" "snd (emit ev) = [ev]"
  "fst (lift r) = r" "snd (lift r) = []"
  by (simp_all add: ret_def raise_def emit_def lift_def)

lemma queries_of_context:
  assumes "Called_query c \<in> set (snd (baostock_login_context bs body))"
  shows "Called_query c \<in> set (snd body)"
proof (cases "login bs")
  case (Inl e)
  then show ?thesis
    using assms by (simp add: session_context_login_raises)
next
  case (Inr lg)
  then show ?thesis
    using assms session_context_login_ok [OF Inr, of body]
      session_context_login_refused [OF Inr, of body]
    by (cases "error_code lg = ''0''") (auto split: option.splits)
qed

lemma queries_of_get_trade_dates:
  assumes "Called_query c \<in> set (snd (get_trade_dates bs s e))"
  shows "c = Bs_call ''query_trade_dates'' []
               [(''start_date'', opt_arg s), (''end_date'', opt_arg e)]"
proof -
  have "Called_query c \<in> set (snd (get_trade_dates_try bs s e))"
    using assms
    by (auto simp: get_trade_dates_def snd_try_except split: sum.splits if_splits)
  then show ?thesis
    unfolding get_trade_dates_try_def
    by (auto dest!: queries_of_context simp: snd_andthen bs_query_def split: sum.splits if_splits)
qed

lemma fst_get_trade_dates:
  assumes "login bs = Inr lg" and "error_code lg = ''0''" and "logout bs = None"
    and "query bs (Bs_call ''query_trade_dates'' []
               [(''start_date'', opt_arg s), (''end_date'', opt_arg e)]) = Inr rs"
    and "error_code rs = ''0''" and "drain (cursor rs) [] = Inr data_list" and "data_list \<noteq> []"
    and "\<forall>r \<in> set data_list. length r = length (rs_fields rs)"
  shows "fst (get_trade_dates bs s e) =
           Inr \<lparr>columns = rs_fields rs, rows = map (map Some) data_list\<rparr>"
  using assms
  by (simp add: get_trade_dates_def get_trade_dates_try_def fst_guard fst_context fst_andthen
      bs_query_def pd_DataFrame_exact)

lemma latest_loop_Some:
  "latest_loop (map Some xs) today acc =
     Inr (case acc of
            None \<Rightarrow> (if filter (\<lambda>d. d \<le> today) xs = [] then None
                     else Some (Max (set (filter (\<lambda>d. d \<le> today) xs))))
          | Some a \<Rightarrow> Some (Max (insert a (set (filter (\<lambda>d. d \<le> today) xs)))))"
proof (induction xs arbitrary: acc)
  case Nil
  then show ?case by (simp split: option.splits)
next
  case (Cons x xs)
  show ?case
  proof (cases "x \<le> today")
    case False
    then show ?thesis by (simp add: Cons.IH split: option.splits)
  next
    case True
    let ?C = "set (filter (\<lambda>d. d \<le> today) xs)"
    have fin: "finite ?C" by simp
    show ?thesis
    proof (cases acc)
      case None
      then show ?thesis using True by (simp add: Cons.IH)
    next
      case (Some a)
      have "Max (insert x ?C) = Max (insert a (insert x ?C))" if "a < x"
        using that fin by (cases "?C = {}") (auto simp: max_def)
      moreover have "Max (insert a ?C) = Max (insert a (insert x ?C))" if "\<not> a < x"
        using that fin by (cases "?C = {}") (auto simp: max_def insert_commute)
      ultimately show ?thesis using True Some by (simp add: Cons.IH)
    qed
  qed
qed


lemma replace_day_valid:
  assumes "valid_date now" and "1 \<le> n" and "n \<le> 28"
  shows "replace_day now n = Inr (now\<lparr>day := n\<rparr>)"
  using assms days_in_month_ge [of "year now" "month now"]
  by (simp add: replace_day_def datetime_new_def valid_date_def)

lemma filter_rows_map:
  "map fst (filter snd (zip (map f xs) (map g xs))) = map f (filter g xs)"
  by (induction xs) auto

lemma latest_handler_total:
  "\<exists>s. fst (try_except m (\<lambda>e. andthen (emit (ev e)) (\<lambda>_. ret (x e)))) = Inr s"
  by (cases "fst m") (simp_all add: fst_try_except fst_andthen)

lemma calendar_columns:
  assumes "\<forall>r \<in> set data_list. length r = 2"
  shows "getitem \<lparr>columns = [''calendar_date'', ''is_trading_day''],
                   rows = map (map Some) data_list\<rparr> ''is_trading_day'' =
           Inr (map (\<lambda>r. Some (r ! 1)) data_list)"
    and "getitem \<lparr>columns = [''calendar_date'', ''is_trading_day''],
                   rows = map (map Some) data_list\<rparr> ''calendar_date'' =
           Inr (map (\<lambda>r. Some (r ! 0)) data_list)"
  using assms by (simp_all add: getitem_def)

lemma latest_trading_date_found:
  assumes "valid_date now"
    and "login bs = Inr lg" and "error_code lg = ''0''" and "logout bs = None"
    and "query bs (Bs_call ''query_trade_dates'' []
           [(''start_date'', PyStr (strftime (now\<lparr>day := 1\<rparr>))),
            (''end_date'', PyStr (strftime (now\<lparr>day := 28\<rparr>)))]) = Inr rs"
    and "error_code rs = ''0''" and "rs_fields rs = [''calendar_date'', ''is_trading_day'']"
    and "drain (cursor rs) [] = Inr data_list" and "data_list \<noteq> []"
    and "\<forall>r \<in> set data_list. length r = 2 \<and> r ! 0 \<noteq> []"
  shows "get_latest_trading_date bs now =
     (let C = map (\<lambda>r. r ! 0)
                (filter (\<lambda>r. r ! 1 = ''1'' \<and> r ! 0 \<le> strftime now) data_list)
      in if C = [] then
           (Inr (strftime now),
            Log INFO ''Tool 'get_latest_trading_date' called'' #
            snd (get_trade_dates bs (Some (strftime (now\<lparr>day := 1\<rparr>)))
                   (Some (strftime (now\<lparr>day := 28\<rparr>)))) @
            [Log WARNING ''No trading dates found before today, returning today's date''])
         else
           (Inr (Max (set C)),
            Log INFO ''Tool 'get_latest_trading_date' called'' #
            snd (get_trade_dates bs (Some (strftime (now\<lparr>day := 1\<rparr>)))
                   (Some (strftime (now\<lparr>day := 28\<rparr>)))) @
            [Log INFO (''Latest trading date found: '' @ Max (set C))]))"
proof -
  let ?today = "strftime now"
  let ?s = "strftime (now\<lparr>day := 1\<rparr>)" and ?e = "strftime (now\<lparr>day := 28\<rparr>)"
  let ?df = "\<lparr>columns = [''calendar_date'', ''is_trading_day''], rows = map (map Some) data_list\<rparr>"
  let ?sel = "filter (\<lambda>r. r ! 1 = ''1'') data_list"
  let ?C = "map (\<lambda>r. r ! 0) (filter (\<lambda>r. r ! 1 = ''1'' \<and> r ! 0 \<le> ?today) data_list)"
  have len: "\<forall>r \<in> set data_list. length r = 2" using assms(10) by simp
  have len': "\<forall>r \<in> set data_list. length r = length (rs_fields rs)"
    using len assms(7) by simp
  have df: "fst (get_trade_dates bs (Some ?s) (Some ?e)) = Inr ?df"
    using fst_get_trade_dates [of bs lg "Some ?s" "Some ?e" rs data_list]
      assms(2-9) len' by (simp add: opt_arg_def)
  have flags: "getitem ?df ''is_trading_day'' = Inr (map (\<lambda>r. Some (r ! 1)) data_list)"
    using calendar_columns(1) [OF len] .
  have fr: "filter_rows ?df (map (\<lambda>c. c = Some ''1'') (map (\<lambda>r. Some (r ! 1)) data_list)) =
              \<lparr>columns = [''calendar_date'', ''is_trading_day''], rows = map (map Some) ?sel\<rparr>"
    using filter_rows_map [of "map Some" data_list "\<lambda>r. r ! 1 = ''1''"]
    by (simp add: filter_rows_def comp_def)
  have len2: "\<forall>r \<in> set ?sel. length r = 2" using len by simp
  have days: "getitem \<lparr>columns = [''calendar_date'', ''is_trading_day''],
                        rows = map (map Some) ?sel\<rparr> ''calendar_date'' =
                Inr (map Some (map (\<lambda>r. r ! 0) ?sel))"
    using calendar_columns(2) [OF len2] by (simp add: comp_def)
  have C: "filter (\<lambda>d. d \<le> ?today) (map (\<lambda>r. r ! 0) ?sel) = ?C"
    by (simp add: filter_map comp_def conj_commute)
  have loop: "latest_loop (map Some (map (\<lambda>r. r ! 0) ?sel)) ?today None =
                Inr (if ?C = [] then None else Some (Max (set ?C)))"
    using latest_loop_Some [of "map (\<lambda>r. r ! 0) ?sel" ?today None] C by simp
  have nonempty: "Max (set ?C) \<noteq> []" if "?C \<noteq> []"
  proof -
    have "set ?C \<noteq> {}" using that by (simp only: set_empty not_False_eq_True)
    then have "Max (set ?C) \<in> set ?C" by (rule Max_in [OF finite_set])
    then show ?thesis using assms(10) by auto
  qed
  show ?thesis
  proof (cases "?C = []")
    case True
    then show ?thesis
      using replace_day_valid [OF assms(1), of 1] replace_day_valid [OF assms(1), of 28]
        df flags fr days loop
      by (cases "get_trade_dates bs (Some ?s) (Some ?e)")
        (simp add: get_latest_trading_date_def Let_def andthen_def try_except_def emit_def
          lift_def ret_def)
  next
    case False
    then show ?thesis
      using replace_day_valid [OF assms(1), of 1] replace_day_valid [OF assms(1), of 28]
        df flags fr days loop nonempty [OF False]
      by (cases "get_trade_dates bs (Some ?s) (Some ?e)")
        (simp add: get_latest_trading_date_def Let_def andthen_def try_except_def emit_def
          lift_def ret_def)
  qed
qed


lemma latest_trading_date_queries:
  assumes "valid_date now"
    and "Called_query c \<in> set (snd (get_latest_trading_date bs now))"
  shows "c = Bs_call ''query_trade_dates'' []
           [(''start_date'', PyStr (strftime (now\<lparr>day := 1\<rparr>))),
            (''end_date'', PyStr (strftime (now\<lparr>day := 28\<rparr>)))]"
proof -
  have "Called_query c \<in> set (snd (get_trade_dates bs (Some (strftime (now\<lparr>day := 1\<rparr>)))
                                     (Some (strftime (now\<lparr>day := 28\<rparr>)))))"
    using assms(2) replace_day_valid [OF assms(1), of 1] replace_day_valid [OF assms(1), of 28]
    by (auto simp: get_latest_trading_date_def Let_def snd_andthen snd_try_except fst_andthen
        split: sum.splits option.splits if_splits)
  then have "c = Bs_call ''query_trade_dates'' []
           [(''start_date'', opt_arg (Some (strftime (now\<lparr>day := 1\<rparr>)))),
            (''end_date'', opt_arg (Some (strftime (now\<lparr>day := 28\<rparr>))))]"
    by (rule queries_of_get_trade_dates)
  then show ?thesis
    by (simp add: opt_arg_def)
qed

lemma latest_trading_date_fallback:
  assumes "valid_date now"
    and "fst (get_trade_dates bs (Some (strftime (now\<lparr>day := 1\<rparr>)))
                (Some (strftime (now\<lparr>day := 28\<rparr>)))) = Inl e"
  shows "fst (get_latest_trading_date bs now) = Inr (strftime now)"
  using assms(2) replace_day_valid [OF assms(1), of 1] replace_day_valid [OF assms(1), of 28]
  by (simp add: get_latest_trading_date_def Let_def fst_andthen fst_try_except)

text \<open>
  C7: \<open>get_latest_trading_date\<close>, called when the clock reads a valid date, never raises
  to its caller; the only query it makes is the trade-date calendar from day 1 to day 28 of
  the current month; when the fetch returns the calendar records (a date and a flag each),
  the result is the greatest date among the records with the flag \<open>'1'\<close> and a date not
  after today, and, if there is none, today's date, with a warning in the log; when the
  fetch raises, the result is today's date.
\<close>

theorem latest_trading_date:
  assumes "valid_date now"
  shows "(\<exists>s. fst (get_latest_trading_date bs now) = Inr s) \<and>
         (\<forall>c. Called_query c \<in> set (snd (get_latest_trading_date bs now)) \<longrightarrow>
            c = Bs_call ''query_trade_dates'' []
                  [(''start_date'', PyStr (strftime (now\<lparr>day := 1\<rparr>))),
                   (''end_date'', PyStr (strftime (now\<lparr>day := 28\<rparr>)))]) \<and>
         (\<forall>lg rs data_list.
            login bs = Inr lg \<and> error_code lg = ''0'' \<and> logout bs = None \<and>
            query bs (Bs_call ''query_trade_dates'' []
                  [(''start_date'', PyStr (strftime (now\<lparr>day := 1\<rparr>))),
                   (''end_date'', PyStr (strftime (now\<lparr>day := 28\<rparr>)))]) = Inr rs \<and>
            error_code rs = ''0'' \<and> rs_fields rs = [''calendar_date'', ''is_trading_day''] \<and>
            drain (cursor rs) [] = Inr data_list \<and> data_list \<noteq> [] \<and>
            (\<forall>r \<in> set data_list. length r = 2 \<and> r ! 0 \<noteq> []) \<longrightarrow>
            (let C = map (\<lambda>r. r ! 0)
                       (filter (\<lambda>r. r ! 1 = ''1'' \<and> r ! 0 \<le> strftime now) data_list)
             in if C = [] then
                  fst (get_latest_trading_date bs now) = Inr (strftime now) \<and>
                  Log WARNING ''No trading dates found before today, returning today's date''
                    \<in> set (snd (get_latest_trading_date bs now))
                else
                  fst (get_latest_trading_date bs now) = Inr (Max (set C)))) \<and>
         (\<forall>e. fst (get_trade_dates bs (Some (strftime (now\<lparr>day := 1\<rparr>)))
                      (Some (strftime (now\<lparr>day := 28\<rparr>)))) = Inl e \<longrightarrow>
            fst (get_latest_trading_date bs now) = Inr (strftime now))"
proof (intro conjI allI impI)
  show "\<exists>s. fst (get_latest_trading_date bs now) = Inr s"
    by (simp add: get_latest_trading_date_def fst_andthen latest_handler_total)
next
  fix c
  assume "Called_query c \<in> set (snd (get_latest_trading_date bs now))"
  then show "c = Bs_call ''query_trade_dates'' []
                  [(''start_date'', PyStr (strftime (now\<lparr>day := 1\<rparr>))),
                   (''end_date'', PyStr (strftime (now\<lparr>day := 28\<rparr>)))]"
    using latest_trading_date_queries [OF assms] by blast
next
  fix lg rs data_list
  assume h: "login bs = Inr lg \<and> error_code lg = ''0'' \<and> logout bs = None \<and>
            query bs (Bs_call ''query_trade_dates'' []
                  [(''start_date'', PyStr (strftime (now\<lparr>day := 1\<rparr>))),
                   (''end_date'', PyStr (strftime (now\<lparr>day := 28\<rparr>)))]) = Inr rs \<and>
            error_code rs = ''0'' \<and> rs_fields rs = [''calendar_date'', ''is_trading_day''] \<and>
            drain (cursor rs) [] = Inr data_list \<and> data_list \<noteq> [] \<and>
            (\<forall>r \<in> set data_list. length r = 2 \<and> r ! 0 \<noteq> [])"
  have "get_latest_trading_date bs now =
     (let C = map (\<lambda>r. r ! 0)
                (filter (\<lambda>r. r ! 1 = ''1'' \<and> r ! 0 \<le> strftime now) data_list)
      in if C = [] then
           (Inr (strftime now),
            Log INFO ''Tool 'get_latest_trading_date' called'' #
            snd (get_trade_dates bs (Some (strftime (now\<lparr>day := 1\<rparr>)))
                   (Some (strftime (now\<lparr>day := 28\<rparr>)))) @
            [Log WARNING ''No trading dates found before today, returning today's date''])
         else
           (Inr (Max (set C)),
            Log INFO ''Tool 'get_latest_trading_date' called'' #
            snd (get_trade_dates bs (Some (strftime (now\<lparr>day := 1\<rparr>)))
                   (Some (strftime (now\<lparr>day := 28\<rparr>)))) @
            [Log INFO (''Latest trading date found: '' @ Max (set C))]))"
    using h by (intro latest_trading_date_found [OF assms, of bs lg rs data_list]) simp_all
  then show "let C = map (\<lambda>r. r ! 0)
                       (filter (\<lambda>r. r ! 1 = ''1'' \<and> r ! 0 \<le> strftime now) data_list)
             in if C = [] then
                  fst (get_latest_trading_date bs now) = Inr (strftime now) \<and>
                  Log WARNING ''No trading dates found before today, returning today's date''
                    \<in> set (snd (get_latest_trading_date bs now))
                else
                  fst (get_latest_trading_date bs now) = Inr (Max (set C))"
    by (simp add: Let_def)
next
  fix e
  assume "fst (get_trade_dates bs (Some (strftime (now\<lparr>day := 1\<rparr>)))
                      (Some (strftime (now\<lparr>day := 28\<rparr>)))) = Inl e"
  then show "fst (get_latest_trading_date bs now) = Inr (strftime now)"
    using latest_trading_date_fallback [OF assms] by blast
qed


theorem latest_trading_date_witness:
  "valid_date \<lparr>year = 2024, month = 1, day = 10\<rparr> \<and>
   fst (get_latest_trading_date
     \<lparr>login = Inr \<lparr>error_code = ''0'', error_msg = ''success!''\<rparr>,
      query = (\<lambda>q. Inr \<lparr>error_code = ''0'', error_msg = ''success'',
                         rs_fields = [''calendar_date'', ''is_trading_day''],
                         cursor = Row [''2024-01-01'', ''0''] (Row [''2024-01-02'', ''1'']
                                 (Row [''2024-01-09'', ''1''] (Row [''2024-01-10'', ''0'']
                                 (Row [''2024-01-11'', ''1''] Exhausted))))\<rparr>),
      logout = None\<rparr>
     \<lparr>year = 2024, month = 1, day = 10\<rparr>) = Inr ''2024-01-09'' \<and>
   fst (get_latest_trading_date
     \<lparr>login = Inr \<lparr>error_code = ''10001001'', error_msg = ''network error''\<rparr>,
      query = (\<lambda>q. Inl (PyException ''RuntimeError'' ''unused'')),
      logout = None\<rparr>
     \<lparr>year = 2024, month = 1, day = 10\<rparr>) = Inr ''2024-01-10''"
  using
    latest_trading_date [of "\<lparr>year = 2024, month = 1, day = 10\<rparr>"
      "\<lparr>login = Inr \<lparr>error_code = ''0'', error_msg = ''success!''\<rparr>,
        query = (\<lambda>q. Inr \<lparr>error_code = ''0'', error_msg = ''success'',
                         rs_fields = [''calendar_date'', ''is_trading_day''],
                         cursor = Row [''2024-01-01'', ''0''] (Row [''2024-01-02'', ''1'']
                                 (Row [''2024-01-09'', ''1''] (Row [''2024-01-10'', ''0'']
                                 (Row [''2024-01-11'', ''1''] Exhausted))))\<rparr>),
        logout = None\<rparr>",
      THEN conjunct2, THEN conjunct2, THEN conjunct1, rule_format,
      of "\<lparr>error_code = ''0'', error_msg = ''success!''\<rparr>"
         "\<lparr>error_code = ''0'', error_msg = ''success'',
           rs_fields = [''calendar_date'', ''is_trading_day''],
           cursor = Row [''2024-01-01'', ''0''] (Row [''2024-01-02'', ''1'']
                   (Row [''2024-01-09'', ''1''] (Row [''2024-01-10'', ''0'']
                   (Row [''2024-01-11'', ''1''] Exhausted))))\<rparr>"
         "[[''2024-01-01'', ''0''], [''2024-01-02'', ''1''], [''2024-01-09'', ''1''],
           [''2024-01-10'', ''0''], [''2024-01-11'', ''1'']]"]
    latest_trading_date [of "\<lparr>year = 2024, month = 1, day = 10\<rparr>"
      "\<lparr>login = Inr \<lparr>error_code = ''10001001'', error_msg = ''network error''\<rparr>,
        query = (\<lambda>q. Inl (PyException ''RuntimeError'' ''unused'')),
        logout = None\<rparr>",
      THEN conjunct2, THEN conjunct2, THEN conjunct2, rule_format,
      of "LoginError ''Baostock login failed: network error''"]
  by (simp add: valid_date_def days_in_month_def is_leap_def strftime_def zfill_def
      str_nat.simps digit_char_def Max.set_eq_fold
      get_trade_dates_def get_trade_dates_try_def fst_guard fst_context)

lemmas date_eval =
  strptime_def parse_month_def parse_month1_def parse_day_def is_digit_def digit_val_def
  datetime_new_def days_in_month_def is_leap_def minus_days_def ymd2ord_def ord2ymd_def
  days_before_year_def days_before_month_def DAYS_BEFORE_MONTH_def strftime_def zfill_def
  str_nat.simps digit_char_def Let_def

lemma strptime_1980_01_15: "strptime ''1980-01-15'' = Inr \<lparr>year = 1980, month = 1, day = 15\<rparr>"
  by (simp add: date_eval)

lemma minus_30_days_1980_01_15: "minus_days \<lparr>year = 1980, month = 1, day = 15\<rparr> 30 = Inr \<lparr>year = 1979, month = 12, day = 16\<rparr>"
  by (simp add: date_eval)

lemma strftime_1979_12_16: "strftime \<lparr>year = 1979, month = 12, day = 16\<rparr> = ''1979-12-16''"
  by (simp add: date_eval)

lemma empty_calendar_before: "fst (get_trade_dates
     \<lparr>login = Inr \<lparr>error_code = ''0'', error_msg = ''success!''\<rparr>,
      query = (\<lambda>q. Inr \<lparr>error_code = ''0'', error_msg = ''success'',
                         rs_fields = [''calendar_date'', ''is_trading_day''],
                         cursor = Exhausted\<rparr>),
      logout = None\<rparr> (Some ''1979-12-16'') (Some ''1980-01-15'')) =
   Inl (NoDataFoundError ''No trade dates found for range 1979-12-16-1980-01-15 (empty result set).'')"
  by (simp add: get_trade_dates_def get_trade_dates_try_def fst_guard fst_context fst_andthen
      bs_query_def str_opt_def)


lemma plus_30_days_1980_01_15: "minus_days \<lparr>year = 1980, month = 1, day = 15\<rparr> (- 30) = Inr \<lparr>year = 1980, month = 2, day = 14\<rparr>"
  by (simp add: date_eval)

lemma strftime_1980_02_14: "strftime \<lparr>year = 1980, month = 2, day = 14\<rparr> = ''1980-02-14''"
  by (simp add: date_eval)

lemma empty_calendar_after: "fst (get_trade_dates
     \<lparr>login = Inr \<lparr>error_code = ''0'', error_msg = ''success!''\<rparr>,
      query = (\<lambda>q. Inr \<lparr>error_code = ''0'', error_msg = ''success'',
                         rs_fields = [''calendar_date'', ''is_trading_day''],
                         cursor = Exhausted\<rparr>),
      logout = None\<rparr> (Some ''1980-01-15'') (Some ''1980-02-14'')) =
   Inl (NoDataFoundError ''No trade dates found for range 1980-01-15-1980-02-14 (empty result set).'')"
  by (simp add: get_trade_dates_def get_trade_dates_try_def fst_guard fst_context fst_andthen
      bs_query_def str_opt_def)

text \<open>
  C8 at the input where the code departs from it: the provider answers the calendar query
  for the window around 1980-01-15 with the status \<open>'0'\<close> and no row. The window holds
  no trading day, and the tools return an error text, not the input date:
  \<open>get_trade_dates\<close> raises \<open>NoDataFoundError\<close> for the empty result, so the test
  \<open>df.empty\<close> of the tools is not reached for it, and their \<open>except\<close> clause answers.
\<close>

theorem trading_day_empty_calendar:
  "fst (previous_trading_day
     \<lparr>login = Inr \<lparr>error_code = ''0'', error_msg = ''success!''\<rparr>,
      query = (\<lambda>q. Inr \<lparr>error_code = ''0'', error_msg = ''success'',
                         rs_fields = [''calendar_date'', ''is_trading_day''],
                         cursor = Exhausted\<rparr>),
      logout = None\<rparr> ''1980-01-15'') =
     Inr ''Error: No trade dates found for range 1979-12-16-1980-01-15 (empty result set).'' \<and>
   fst (next_trading_day
     \<lparr>login = Inr \<lparr>error_code = ''0'', error_msg = ''success!''\<rparr>,
      query = (\<lambda>q. Inr \<lparr>error_code = ''0'', error_msg = ''success'',
                         rs_fields = [''calendar_date'', ''is_trading_day''],
                         cursor = Exhausted\<rparr>),
      logout = None\<rparr> ''1980-01-15'') =
     Inr ''Error: No trade dates found for range 1980-01-15-1980-02-14 (empty result set).''"
  by (simp add: previous_trading_day_def next_trading_day_def fst_andthen fst_try_except
      strptime_1980_01_15 minus_30_days_1980_01_15 strftime_1979_12_16 empty_calendar_before plus_30_days_1980_01_15 strftime_1980_02_14 empty_calendar_after
      Let_def)


text \<open>
  What the two tools do when the fetch returns calendar records: the greatest date with the
  flag \<open>'1'\<close> strictly before the input, and the least such date strictly after it; the
  input date when there is none. A returned date is a date of one of the records.
\<close>

lemma sort_Nil_iff: "sort xs = [] \<longleftrightarrow> xs = []"
  by (metis length_0_conv length_sort)

lemma last_sort_Max:
  fixes xs :: "'a::linorder list"
  assumes "xs \<noteq> []"
  shows "last (sort xs) = Max (set xs)"
proof -
  have "last ys = Max (set ys)" if "sorted ys" and "ys \<noteq> []" for ys :: "'a list"
    using that
  proof (induction ys)
    case Nil
    then show ?case by simp
  next
    case (Cons y ys)
    show ?case
    proof (cases "ys = []")
      case True
      then show ?thesis by simp
    next
      case False
      then have l: "last ys = Max (set ys)" using Cons by simp
      have "hd ys \<in> set ys" using False by simp
      then have "y \<le> hd ys" and "hd ys \<le> Max (set ys)"
        using Cons.prems(1) by auto
      then have "y \<le> Max (set ys)" by (rule order_trans)
      then show ?thesis using False l by (simp add: max_def)
    qed
  qed
  from this [of "sort xs"] assms show ?thesis by (simp add: sort_Nil_iff)
qed

lemma hd_sort_Min:
  fixes xs :: "'a::linorder list"
  assumes "xs \<noteq> []"
  shows "hd (sort xs) = Min (set xs)"
proof -
  have "hd ys = Min (set ys)" if "sorted ys" and "ys \<noteq> []" for ys :: "'a list"
    using that by (cases ys) (auto intro!: Min_eqI [symmetric])
  from this [of "sort xs"] assms show ?thesis by (simp add: sort_Nil_iff)
qed

lemma candidates_of_calendar:
  "concat (map (\<lambda>(f, c). case c of None \<Rightarrow> [] | Some s \<Rightarrow> if f = Some ''1'' \<and> P s then [s] else [])
     (zip (map (\<lambda>r. Some (r ! 1)) data_list) (map (\<lambda>r. Some (r ! 0)) data_list))) =
   map (\<lambda>r. r ! 0) (filter (\<lambda>r. r ! 1 = ''1'' \<and> P (r ! 0)) data_list)"
  by (induction data_list) auto

lemma previous_trading_day_fetched:
  assumes "strptime date = Inr d" and "minus_days d 30 = Inr d_start"
    and "fst (get_trade_dates bs (Some (strftime d_start)) (Some date)) =
           Inr \<lparr>columns = [''calendar_date'', ''is_trading_day''],
                rows = map (map Some) data_list\<rparr>"
    and "data_list \<noteq> []" and "\<forall>r \<in> set data_list. length r = 2"
  shows "fst (previous_trading_day bs date) =
     Inr (let C = map (\<lambda>r. r ! 0) (filter (\<lambda>r. r ! 1 = ''1'' \<and> r ! 0 < date) data_list)
          in if C = [] then date else Max (set C))"
proof -
  let ?C = "map (\<lambda>r. r ! 0) (filter (\<lambda>r. r ! 1 = ''1'' \<and> r ! 0 < date) data_list)"
  have "fst (previous_trading_day bs date) =
          Inr (if sort ?C = [] then date else last (sort ?C))"
    using assms(1-4) calendar_columns [OF assms(5)]
      candidates_of_calendar [of "\<lambda>s. s < date" data_list]
    by (simp add: previous_trading_day_def fst_andthen fst_try_except Let_def empty_df_def)
  then show ?thesis
    by (cases "?C = []") (simp_all add: sort_Nil_iff last_sort_Max Let_def)
qed

lemma next_trading_day_fetched:
  assumes "strptime date = Inr d" and "minus_days d (- 30) = Inr d_end"
    and "fst (get_trade_dates bs (Some date) (Some (strftime d_end))) =
           Inr \<lparr>columns = [''calendar_date'', ''is_trading_day''],
                rows = map (map Some) data_list\<rparr>"
    and "data_list \<noteq> []" and "\<forall>r \<in> set data_list. length r = 2"
  shows "fst (next_trading_day bs date) =
     Inr (let C = map (\<lambda>r. r ! 0) (filter (\<lambda>r. r ! 1 = ''1'' \<and> date < r ! 0) data_list)
          in if C = [] then date else Min (set C))"
proof -
  let ?C = "map (\<lambda>r. r ! 0) (filter (\<lambda>r. r ! 1 = ''1'' \<and> date < r ! 0) data_list)"
  have "fst (next_trading_day bs date) =
          Inr (if sort ?C = [] then date else hd (sort ?C))"
    using assms(1-4) calendar_columns [OF assms(5)]
      candidates_of_calendar [of "\<lambda>s. date < s" data_list]
    by (simp add: next_trading_day_def fst_andthen fst_try_except Let_def empty_df_def)
  then show ?thesis
    by (cases "?C = []") (simp_all add: sort_Nil_iff hd_sort_Min Let_def)
qed

end
